theory Spec2Isabelle
  imports Complex_Main
begin

section \<open>The YOLOv8 model converter (scripts/convert\_models\_to\_onnx.py)\<close>

text \<open>
  The script has two functions: \<open>convert_yolov8_to_onnx\<close>, which creates the output
  directory, loads a checkpoint, exports it and moves the exported file, and \<open>main\<close>,
  which runs it over a fixed list of checkpoints and prints a summary. Both are embedded
  here as state-passing functions over a small model of what they act on: the
  filesystem, the console and the external \<open>ultralytics\<close> package.
\<close>

subsection \<open>Path strings (posixpath)\<close>

text \<open>\<open>os.path.basename(p)\<close> is \<open>p[p.rfind('/') + 1:]\<close>.\<close>

definition basename :: "string \<Rightarrow> string" where
  "basename p = rev (takeWhile (\<lambda>c. c \<noteq> CHR ''/'') (rev p))"

text \<open>
  \<open>os.path.splitext(p)\<close> splits at the last dot of the last path component, unless all
  the characters of that component before the dot are dots themselves.
\<close>

definition splitext :: "string \<Rightarrow> string \<times> string" where
  "splitext p =
     (let name = basename p;
          ext = rev (takeWhile (\<lambda>c. c \<noteq> CHR ''.'') (rev name));
          stem = take (length name - length ext - 1) name
      in if CHR ''.'' \<in> set name \<and> (\<exists>c \<in> set stem. c \<noteq> CHR ''.'')
         then (take (length p - length ext - 1) p, drop (length p - length ext - 1) p)
         else (p, []))"

text \<open>\<open>os.path.join(a, b)\<close> for two arguments.\<close>

definition join :: "string \<Rightarrow> string \<Rightarrow> string" where
  "join a b =
     (if take 1 b = ''/'' then b
      else if a = [] \<or> last a = CHR ''/'' then a @ b
      else a @ ''/'' @ b)"

subsection \<open>The filesystem\<close>

text \<open>
  A file is named by the list of its path components, read from the working directory
  (the empty list), or from the root when the list starts with the component \<open>/\<close>.
  Empty components and \<open>.\<close> are dropped. The model has no symbolic or hard links; it
  keeps \<open>..\<close> as a component, does not tell a name with a trailing slash from the name
  without it, and does not place the working directory below the root. The empty
  string names no file.
\<close>

type_synonym path = "string list"

primrec split_slash :: "string \<Rightarrow> string list" where
  "split_slash [] = [[]]"
| "split_slash (c # cs) =
     (if c = CHR ''/'' then [] # split_slash cs
      else (case split_slash cs of [] \<Rightarrow> [[c]] | w # ws \<Rightarrow> (c # w) # ws))"

definition components :: "string \<Rightarrow> path" where
  "components s = filter (\<lambda>w. w \<noteq> [] \<and> w \<noteq> ''.'') (split_slash s)"

definition path_of :: "string \<Rightarrow> path" where
  "path_of s = (if take 1 s = ''/'' then [''/''] else []) @ components s"

definition resolve :: "string \<Rightarrow> path option" where
  "resolve s = (if s = [] then None else Some (path_of s))"



type_synonym content = string

datatype node = File content | Dir

type_synonym filesystem = "path \<rightharpoonup> node"

text \<open>
  The exceptions of the run. All but \<open>NonException\<close> are subclasses of Python's
  \<open>Exception\<close>; \<open>NonException\<close> stands for the others (\<open>KeyboardInterrupt\<close>,
  \<open>SystemExit\<close>), which \<open>except Exception\<close> does not catch. \<open>ExternalError\<close> is what
  the loader or the exporter raises, \<open>ModuleNotFoundError\<close> what an \<open>import\<close> raises, and
  \<open>BrokenPipeError\<close> what \<open>print\<close> raises when the output is closed.
\<close>

datatype error =
    FileExistsError
  | FileNotFoundError
  | NotADirectoryError
  | IsADirectoryError
  | DestinationExists string
  | UnsupportedSource
  | ExternalError string
  | ModuleNotFoundError string
  | BrokenPipeError
  | NonException string

definition is_Exception :: "error \<Rightarrow> bool" where
  "is_Exception e = (case e of NonException _ \<Rightarrow> False | _ \<Rightarrow> True)"

text \<open>
  In a filesystem every entry but the working directory lies in a directory.
\<close>

definition wf_fs :: "filesystem \<Rightarrow> bool" where
  "wf_fs fs = (\<forall>p. p \<noteq> [] \<longrightarrow> fs p \<noteq> None \<longrightarrow> fs (butlast p) = Some Dir)"

text \<open>\<open>os.path.exists\<close>, \<open>os.path.isdir\<close> and \<open>os.path.isfile\<close>.\<close>

definition exists :: "string \<Rightarrow> filesystem \<Rightarrow> bool" where
  "exists s fs = (case resolve s of None \<Rightarrow> False | Some p \<Rightarrow> fs p \<noteq> None)"

definition isdir :: "string \<Rightarrow> filesystem \<Rightarrow> bool" where
  "isdir s fs = (case resolve s of None \<Rightarrow> False | Some p \<Rightarrow> fs p = Some Dir)"

definition isfile :: "string \<Rightarrow> filesystem \<Rightarrow> bool" where
  "isfile s fs =
     (case resolve s of
        None \<Rightarrow> False
      | Some p \<Rightarrow> (case fs p of Some (File c) \<Rightarrow> True | _ \<Rightarrow> False))"

text \<open>
  \<open>os.mkdir\<close>: the name must be free and its parent a directory.
\<close>

definition mkdir :: "path \<Rightarrow> filesystem \<Rightarrow> error + filesystem" where
  "mkdir p fs =
     (if fs p \<noteq> None then Inl FileExistsError
      else case fs (butlast p) of
             None \<Rightarrow> Inl FileNotFoundError
           | Some (File c) \<Rightarrow> Inl NotADirectoryError
           | Some Dir \<Rightarrow> Inr (fs(p \<mapsto> Dir)))"

text \<open>
  \<open>os.makedirs(name, exist_ok=True)\<close>: when the parent is named and missing it is made
  first, by the same function (a \<open>FileExistsError\<close> from there is passed over); then
  \<open>mkdir\<close> is called, and its error is raised again unless the name is a directory.
\<close>

definition mkdir_exist_ok :: "path \<Rightarrow> filesystem \<Rightarrow> error + filesystem" where
  "mkdir_exist_ok p fs =
     (case mkdir p fs of
        Inl e \<Rightarrow> if fs p = Some Dir then Inr fs else Inl e
      | Inr fs' \<Rightarrow> Inr fs')"

function makedirs_path :: "path \<Rightarrow> filesystem \<Rightarrow> error + filesystem" where
  "makedirs_path p fs =
     (if butlast p \<noteq> [] \<and> fs (butlast p) = None
      then (case makedirs_path (butlast p) fs of
              Inl e \<Rightarrow> if e = FileExistsError then mkdir_exist_ok p fs else Inl e
            | Inr fs' \<Rightarrow> mkdir_exist_ok p fs')
      else mkdir_exist_ok p fs)"
  by pat_completeness auto
termination
proof (relation "measure (\<lambda>(p, fs). length p)")
  fix p :: path and fs :: filesystem
  assume "butlast p \<noteq> [] \<and> fs (butlast p) = None"
  then have "p \<noteq> []" by auto
  then show "((butlast p, fs), (p, fs)) \<in> measure (\<lambda>(p, fs). length p)" by simp
qed simp

declare makedirs_path.simps [simp del]

definition makedirs :: "string \<Rightarrow> filesystem \<Rightarrow> error + filesystem" where
  "makedirs s fs =
     (case resolve s of
        None \<Rightarrow> Inl FileNotFoundError
      | Some p \<Rightarrow> makedirs_path p fs)"

text \<open>
  \<open>os.rename\<close> of a regular file (POSIX): the source must exist, the destination must
  not be a directory and its parent must be one; an existing destination file is
  replaced, and renaming a file to itself does nothing. Renaming a directory is not
  modelled and is reported as \<open>UnsupportedSource\<close>: the converter only ever moves the
  regular file the exporter has just written.
\<close>

definition rename :: "string \<Rightarrow> string \<Rightarrow> filesystem \<Rightarrow> error + filesystem" where
  "rename src dst fs =
     (case (resolve src, resolve dst) of
        (Some s, Some d) \<Rightarrow>
          (case fs s of
             None \<Rightarrow> Inl FileNotFoundError
           | Some Dir \<Rightarrow> Inl UnsupportedSource
           | Some (File c) \<Rightarrow>
               if fs d = Some Dir then Inl IsADirectoryError
               else (case fs (butlast d) of
                       None \<Rightarrow> Inl FileNotFoundError
                     | Some (File c') \<Rightarrow> Inl NotADirectoryError
                     | Some Dir \<Rightarrow> Inr ((fs(s := None))(d \<mapsto> File c))))
      | _ \<Rightarrow> Inl FileNotFoundError)"

text \<open>
  \<open>shutil.move(src, dst)\<close>: when \<open>dst\<close> is an existing directory the source is moved
  inside it, under its own base name, and that name must be free there; otherwise the
  source is renamed to \<open>dst\<close>. (On one device the copy that \<open>shutil.move\<close> falls back to
  when \<open>os.rename\<close> fails, fails for the same reason.)
\<close>

definition rstrip_slash :: "string \<Rightarrow> string" where
  "rstrip_slash s = rev (dropWhile (\<lambda>c. c = CHR ''/'') (rev s))"

definition move :: "string \<Rightarrow> string \<Rightarrow> filesystem \<Rightarrow> error + filesystem" where
  "move src dst fs =
     (if isdir dst fs then
        (if exists src fs \<and> resolve src = resolve dst then rename src dst fs
         else let real_dst = join dst (basename (rstrip_slash src))
              in if exists real_dst fs then Inl (DestinationExists real_dst)
                 else rename src real_dst fs)
      else rename src dst fs)"

text \<open>
  \<open>os.path.getsize\<close>: the length of a file; for a directory, whatever size the platform
  reports for one (\<open>dsize\<close>).
\<close>

definition getsize :: "nat \<Rightarrow> string \<Rightarrow> filesystem \<Rightarrow> error + nat" where
  "getsize dsize s fs =
     (case resolve s of
        None \<Rightarrow> Inl FileNotFoundError
      | Some p \<Rightarrow>
          (case fs p of
             None \<Rightarrow> Inl FileNotFoundError
           | Some (File c) \<Rightarrow> Inr (length c)
           | Some Dir \<Rightarrow> Inr dsize))"

subsection \<open>The external package and the console\<close>

text \<open>
  The keyword arguments of \<open>model.export\<close>.
\<close>

record export_args =
  format :: string
  imgsz :: nat
  dynamic :: bool
  simplify :: bool
  opset :: nat

text \<open>
  The \<open>ultralytics\<close> package is not part of the repository and is a parameter of the
  model. \<open>load\<close> is \<open>YOLO(model_path)\<close>: it reads the filesystem and returns a model
  handle or raises. \<open>export\<close> is \<open>model.export(...)\<close>: it raises, or names the artifact
  it has produced and gives its content. \<open>dir_size\<close> is the size the platform reports
  for a directory.
\<close>

record 'h env =
  load :: "string \<Rightarrow> filesystem \<Rightarrow> error + 'h"
  export :: "'h \<Rightarrow> export_args \<Rightarrow> filesystem \<Rightarrow> error + (string \<times> content)"
  dir_size :: nat

text \<open>
  What the script prints, one constructor for each \<open>print\<close> (or block of them):
  the banner of lines 24-26, the three lines 51-53, the size of line 57, the header of
  lines 64-65, the error of line 81, the warning of line 83, and the summary of lines
  86-102. The size is printed in megabytes; the rounding of Python's floating-point
  division and of the \<open>.2f\<close> format is not modelled.
\<close>

datatype msg =
    Converting string
  | Converted string
  | SavedTo string
  | Optimized
  | FileSizeMB real
  | Header
  | ErrorConverting string error
  | NotFound string
  | Complete
  | ConvertedCount nat
  | ConvertedPath string
  | NextSteps
  | Recommended

text \<open>
  The state of a run: the filesystem, the console, and the arguments of each call of
  \<open>export\<close> so far.
\<close>

record state =
  fs :: filesystem
  console :: "msg list"
  exports :: "export_args list"

text \<open>
  A \<open>print\<close> that succeeds. What the script does when a \<open>print\<close> raises is embedded
  further down, with \<open>print_io\<close>.
\<close>

definition print :: "msg \<Rightarrow> state \<Rightarrow> state" where
  "print m st = st\<lparr>console := console st @ [m]\<rparr>"

text \<open>
  Modelled from the spec: the effect of the external exporter on the filesystem, which
  "returns a path to a freshly produced artifact in an implementation-defined
  location". After a successful export a regular file with the artifact's content is
  at the returned path and nothing else has changed; the exporter cannot write a
  regular file where a directory is, outside a directory, or at the empty path; a
  failed export changes nothing.
\<close>

definition run_export ::
  "'h env \<Rightarrow> 'h \<Rightarrow> export_args \<Rightarrow> filesystem \<Rightarrow> error + (string \<times> filesystem)" where
  "run_export env model args fs0 =
     (case export env model args fs0 of
        Inl e \<Rightarrow> Inl e
      | Inr (onnx_path, c) \<Rightarrow>
          (case resolve onnx_path of
             None \<Rightarrow> Inl FileNotFoundError
           | Some p \<Rightarrow>
               if fs0 p = Some Dir then Inl IsADirectoryError
               else (case fs0 (butlast p) of
                       None \<Rightarrow> Inl FileNotFoundError
                     | Some (File c') \<Rightarrow> Inl NotADirectoryError
                     | Some Dir \<Rightarrow> Inr (onnx_path, fs0(p \<mapsto> File c)))))"

text \<open>
  A call \<open>model.export(...)\<close>: the package is entered with the arguments of the call,
  which the state records as it receives them, and exports.
\<close>

definition call_export ::
  "'h env \<Rightarrow> 'h \<Rightarrow> export_args \<Rightarrow> state \<Rightarrow> (error + string) \<times> state" where
  "call_export env model args st =
     (let st' = st\<lparr>exports := exports st @ [args]\<rparr> in
      case run_export env model args (fs st') of
        Inl e \<Rightarrow> (Inl e, st')
      | Inr (onnx_path, fs') \<Rightarrow> (Inr onnx_path, st'\<lparr>fs := fs'\<rparr>))"

subsection \<open>convert\_yolov8\_to\_onnx\<close>

text \<open>The arguments of the call of lines 39-45.\<close>

definition onnx_args :: export_args where
  "onnx_args = \<lparr>format = ''onnx'', imgsz = 640, dynamic = True, simplify = True, opset = 12\<rparr>"

text \<open>Line 35: the model name is the base name of the checkpoint without its extension.\<close>

definition model_name_of :: "string \<Rightarrow> string" where
  "model_name_of model_path = fst (splitext (basename model_path))"

text \<open>Line 48.\<close>

definition output_path_of :: "string \<Rightarrow> string \<Rightarrow> string" where
  "output_path_of output_dir model_path = join output_dir (model_name_of model_path @ ''.onnx'')"

text \<open>
  The function returns the output path or raises; either way the state it leaves
  behind is returned with the result.
\<close>

definition convert_yolov8_to_onnx ::
  "'h env \<Rightarrow> string \<Rightarrow> string \<Rightarrow> state \<Rightarrow> (error + string) \<times> state" where
  "convert_yolov8_to_onnx env model_path output_dir st0 =
     (let st1 = print (Converting model_path) st0 in
      case makedirs output_dir (fs st1) of
        Inl e \<Rightarrow> (Inl e, st1)
      | Inr fs1 \<Rightarrow>
          let st2 = st1\<lparr>fs := fs1\<rparr> in
          (case load env model_path (fs st2) of
             Inl e \<Rightarrow> (Inl e, st2)
           | Inr model \<Rightarrow>
               let model_name = model_name_of model_path in
               (case call_export env model onnx_args st2 of
                  (Inl e, st3) \<Rightarrow> (Inl e, st3)
                | (Inr onnx_path, st4) \<Rightarrow>
                    let output_path = join output_dir (model_name @ ''.onnx'') in
                    (case move onnx_path output_path (fs st4) of
                       Inl e \<Rightarrow> (Inl e, st4)
                     | Inr fs5 \<Rightarrow>
                         let st5 = st4\<lparr>fs := fs5\<rparr>;
                             st6 = print Optimized (print (SavedTo output_path)
                                     (print (Converted model_name) st5)) in
                         (case getsize (dir_size env) output_path (fs st6) of
                            Inl e \<Rightarrow> (Inl e, st6)
                          | Inr n \<Rightarrow>
                              let file_size = real n / (1024 * 1024) in
                              (Inr output_path, print (FileSizeMB file_size) st6))))))"

subsection \<open>main\<close>

text \<open>The default of the parameter \<open>output_dir\<close>, and the list of lines 68-71.\<close>

definition default_output_dir :: string where
  "default_output_dir = ''public/models''"

definition models :: "string list" where
  "models = [''api/yolov8n-pose.pt'', ''api/yolov8s-pose.pt'']"

text \<open>
  The body of the loop of lines 75-83 for one model: \<open>except Exception\<close> catches the
  subclasses of \<open>Exception\<close> only, anything else leaves the loop.
\<close>

definition loop_body ::
  "'h env \<Rightarrow> string \<Rightarrow> string list \<Rightarrow> state \<Rightarrow> (error + string list) \<times> state" where
  "loop_body env model_path converted_models st =
     (if exists model_path (fs st) then
        (case convert_yolov8_to_onnx env model_path default_output_dir st of
           (Inr output_path, st') \<Rightarrow> (Inr (converted_models @ [output_path]), st')
         | (Inl e, st') \<Rightarrow>
             if is_Exception e then (Inr converted_models, print (ErrorConverting model_path e) st')
             else (Inl e, st'))
      else (Inr converted_models, print (NotFound model_path) st))"

fun main_loop ::
  "'h env \<Rightarrow> string list \<Rightarrow> string list \<Rightarrow> state \<Rightarrow> (error + string list) \<times> state" where
  "main_loop env [] converted_models st = (Inr converted_models, st)"
| "main_loop env (model_path # rest) converted_models st =
     (case loop_body env model_path converted_models st of
        (Inl e, st') \<Rightarrow> (Inl e, st')
      | (Inr converted_models', st') \<Rightarrow> main_loop env rest converted_models' st')"

text \<open>
  \<open>main\<close> over a given list of models (\<open>run_batch\<close> in the specification): the header,
  the loop from an empty list of converted models, and the summary.
\<close>

definition summary :: "string list \<Rightarrow> msg list" where
  "summary converted_models =
     [Complete, ConvertedCount (length converted_models)]
     @ map ConvertedPath converted_models @ [NextSteps, Recommended]"

definition run_batch :: "'h env \<Rightarrow> string list \<Rightarrow> state \<Rightarrow> (error + unit) \<times> state" where
  "run_batch env registry st0 =
     (case main_loop env registry [] (print Header st0) of
        (Inl e, st') \<Rightarrow> (Inl e, st')
      | (Inr converted_models, st') \<Rightarrow>
          (Inr (), st'\<lparr>console := console st' @ summary converted_models\<rparr>))"

definition main :: "'h env \<Rightarrow> state \<Rightarrow> (error + unit) \<times> state" where
  "main env st0 = run_batch env models st0"

subsection \<open>The script when the import or a print fails\<close>

text \<open>
  Above, \<open>print\<close> always succeeds and the package is there. What remains of the platform
  can fail too: the \<open>import\<close> of line 12 raises when the package is not installed, and a
  \<open>print\<close> raises when the output cannot be written. \<open>import_ultralytics\<close> is the
  exception the import raises, if any; \<open>print_raises c m\<close> is the exception that printing \<open>m\<close>
  raises, if any, when the console holds \<open>c\<close>.
\<close>

record platform =
  import_ultralytics :: "error option"
  print_raises :: "msg list \<Rightarrow> msg \<Rightarrow> error option"

definition print_io :: "platform \<Rightarrow> msg \<Rightarrow> state \<Rightarrow> (error + unit) \<times> state" where
  "print_io pf m st =
     (case print_raises pf (console st) m of
        Some e \<Rightarrow> (Inl e, st)
      | None \<Rightarrow> (Inr (), print m st))"

fun prints_io :: "platform \<Rightarrow> msg list \<Rightarrow> state \<Rightarrow> (error + unit) \<times> state" where
  "prints_io pf [] st = (Inr (), st)"
| "prints_io pf (m # ms) st =
     (case print_io pf m st of
        (Inl e, st') \<Rightarrow> (Inl e, st')
      | (Inr u, st') \<Rightarrow> prints_io pf ms st')"

text \<open>
  \<open>convert_yolov8_to_onnx\<close>, lines 24-59, with prints that may raise: an exception of a
  print leaves the function as any other does.
\<close>

definition convert_yolov8_to_onnx_io ::
  "'h env \<Rightarrow> platform \<Rightarrow> string \<Rightarrow> string \<Rightarrow> state \<Rightarrow> (error + string) \<times> state" where
  "convert_yolov8_to_onnx_io env pf model_path output_dir st0 =
     (case print_io pf (Converting model_path) st0 of
        (Inl e, st1) \<Rightarrow> (Inl e, st1)
      | (Inr u, st1) \<Rightarrow>
          (case makedirs output_dir (fs st1) of
             Inl e \<Rightarrow> (Inl e, st1)
           | Inr fs1 \<Rightarrow>
               let st2 = st1\<lparr>fs := fs1\<rparr> in
               (case load env model_path (fs st2) of
                  Inl e \<Rightarrow> (Inl e, st2)
                | Inr model \<Rightarrow>
                    let model_name = model_name_of model_path in
                    (case call_export env model onnx_args st2 of
                       (Inl e, st3) \<Rightarrow> (Inl e, st3)
                     | (Inr onnx_path, st4) \<Rightarrow>
                         let output_path = join output_dir (model_name @ ''.onnx'') in
                         (case move onnx_path output_path (fs st4) of
                            Inl e \<Rightarrow> (Inl e, st4)
                          | Inr fs5 \<Rightarrow>
                              let st5 = st4\<lparr>fs := fs5\<rparr> in
                              (case prints_io pf [Converted model_name, SavedTo output_path,
                                                  Optimized] st5 of
                                 (Inl e, st6) \<Rightarrow> (Inl e, st6)
                               | (Inr u, st6) \<Rightarrow>
                                   (case getsize (dir_size env) output_path (fs st6) of
                                      Inl e \<Rightarrow> (Inl e, st6)
                                    | Inr n \<Rightarrow>
                                        let file_size = real n / (1024 * 1024) in
                                        (case print_io pf (FileSizeMB file_size) st6 of
                                           (Inl e, st7) \<Rightarrow> (Inl e, st7)
                                         | (Inr u, st7) \<Rightarrow> (Inr output_path, st7)))))))))"

text \<open>
  The body of the loop, lines 76-83: the prints of lines 81 and 83 are in the loop and
  outside the \<open>try\<close> block, so that nothing catches what they raise.
\<close>

definition loop_body_io ::
  "'h env \<Rightarrow> platform \<Rightarrow> string \<Rightarrow> string list \<Rightarrow> state \<Rightarrow> (error + string list) \<times> state" where
  "loop_body_io env pf model_path converted_models st =
     (if exists model_path (fs st) then
        (case convert_yolov8_to_onnx_io env pf model_path default_output_dir st of
           (Inr output_path, st') \<Rightarrow> (Inr (converted_models @ [output_path]), st')
         | (Inl e, st') \<Rightarrow>
             if is_Exception e then
               (case print_io pf (ErrorConverting model_path e) st' of
                  (Inl e', st'') \<Rightarrow> (Inl e', st'')
                | (Inr u, st'') \<Rightarrow> (Inr converted_models, st''))
             else (Inl e, st'))
      else (case print_io pf (NotFound model_path) st of
              (Inl e, st') \<Rightarrow> (Inl e, st')
            | (Inr u, st') \<Rightarrow> (Inr converted_models, st')))"

fun main_loop_io ::
  "'h env \<Rightarrow> platform \<Rightarrow> string list \<Rightarrow> string list \<Rightarrow> state \<Rightarrow> (error + string list) \<times> state"
where
  "main_loop_io env pf [] converted_models st = (Inr converted_models, st)"
| "main_loop_io env pf (model_path # rest) converted_models st =
     (case loop_body_io env pf model_path converted_models st of
        (Inl e, st') \<Rightarrow> (Inl e, st')
      | (Inr converted_models', st') \<Rightarrow> main_loop_io env pf rest converted_models' st')"

definition run_batch_io ::
  "'h env \<Rightarrow> platform \<Rightarrow> string list \<Rightarrow> state \<Rightarrow> (error + unit) \<times> state" where
  "run_batch_io env pf registry st0 =
     (case print_io pf Header st0 of
        (Inl e, st1) \<Rightarrow> (Inl e, st1)
      | (Inr u, st1) \<Rightarrow>
          (case main_loop_io env pf registry [] st1 of
             (Inl e, st') \<Rightarrow> (Inl e, st')
           | (Inr converted_models, st') \<Rightarrow> prints_io pf (summary converted_models) st'))"

definition main_io :: "'h env \<Rightarrow> platform \<Rightarrow> state \<Rightarrow> (error + unit) \<times> state" where
  "main_io env pf st0 = run_batch_io env pf models st0"

text \<open>
  The script as \<open>python convert_models_to_onnx.py\<close> runs it: the import of line 12, then
  \<open>main()\<close> from line 105. An \<open>Inl\<close> is an exception that nothing has caught: it ends
  the process.
\<close>

definition script :: "'h env \<Rightarrow> platform \<Rightarrow> state \<Rightarrow> (error + unit) \<times> state" where
  "script env pf st0 =
     (case import_ultralytics pf of
        Some e \<Rightarrow> (Inl e, st0)
      | None \<Rightarrow> main_io env pf st0)"

text \<open>
  The messages printed outside the \<open>try\<close> block of lines 77-79: all those of \<open>main\<close>.
\<close>

definition outside_try :: "msg \<Rightarrow> bool" where
  "outside_try m =
     (case m of
        Converting s \<Rightarrow> False
      | Converted s \<Rightarrow> False
      | SavedTo s \<Rightarrow> False
      | Optimized \<Rightarrow> False
      | FileSizeMB x \<Rightarrow> False
      | _ \<Rightarrow> True)"

subsection \<open>Predicates used in the statements\<close>

text \<open>
  \<open>grown p F F'\<close>: \<open>F'\<close> is \<open>F\<close> with, at most, new directories at \<open>p\<close> and above it.
\<close>

definition grown :: "path \<Rightarrow> filesystem \<Rightarrow> filesystem \<Rightarrow> bool" where
  "grown p F F' = (\<forall>k. (F k \<noteq> None \<longrightarrow> F' k = F k) \<and>
                         (F k = None \<longrightarrow> F' k \<noteq> None \<longrightarrow> F' k = Some Dir \<and> (\<exists>n. k = take n p)))"


subsection \<open>Sample runs\<close>

text \<open>
  A package that loads every checkpoint and writes the exported file beside it, as
  \<open>ultralytics\<close> does, and a filesystem holding the two checkpoints of \<open>models\<close>.
\<close>

definition sample_env :: "string env" where
  "sample_env = \<lparr>load = (\<lambda>model_path F. Inr model_path),
                  export = (\<lambda>model args F. Inr (fst (splitext model) @ ''.onnx'', ''onnx'')),
                  dir_size = 64\<rparr>"

definition sample_fs :: filesystem where
  "sample_fs = [[] \<mapsto> Dir, [''api''] \<mapsto> Dir,
                [''api'', ''yolov8n-pose.pt''] \<mapsto> File ''n'',
                [''api'', ''yolov8s-pose.pt''] \<mapsto> File ''s'']"

definition sample_state :: state where
  "sample_state = \<lparr>fs = sample_fs, console = [], exports = []\<rparr>"

text \<open>
  A package that cannot load the first checkpoint of \<open>models\<close>, a filesystem from which
  that checkpoint is missing, and one where a regular file named \<open>public\<close> stands in the
  way of the output directory.
\<close>

definition failing_first_env :: "string env" where
  "failing_first_env =
     sample_env\<lparr>load := \<lambda>model_path F.
        if model_path = ''api/yolov8n-pose.pt'' then Inl (ExternalError ''corrupt checkpoint'')
        else Inr model_path\<rparr>"

definition missing_first_state :: state where
  "missing_first_state =
     \<lparr>fs = [[] \<mapsto> Dir, [''api''] \<mapsto> Dir, [''api'', ''yolov8s-pose.pt''] \<mapsto> File ''s''],
      console = [], exports = []\<rparr>"

definition blocked_state :: state where
  "blocked_state = \<lparr>fs = sample_fs([''public''] \<mapsto> File ''x''), console = [], exports = []\<rparr>"

text \<open>A package whose loader is interrupted from the keyboard.\<close>

definition interrupted_env :: "string env" where
  "interrupted_env = sample_env\<lparr>load := \<lambda>model_path F. Inl (NonException ''KeyboardInterrupt'')\<rparr>"

text \<open>
  A filesystem in which a directory already has the name of the first output file, and
  a package whose exporter writes straight to that name.
\<close>

definition occupied_state :: state where
  "occupied_state =
     \<lparr>fs = sample_fs([''public''] \<mapsto> Dir, [''public'', ''models''] \<mapsto> Dir,
                     [''public'', ''models'', ''yolov8n-pose.onnx''] \<mapsto> Dir),
      console = [], exports = []\<rparr>"


text \<open>The filesystem as a first run over \<open>models\<close> leaves it, with older output files.\<close>

definition second_run_state :: state where
  "second_run_state =
     \<lparr>fs = sample_fs([''public''] \<mapsto> Dir, [''public'', ''models''] \<mapsto> Dir,
                     [''public'', ''models'', ''yolov8n-pose.onnx''] \<mapsto> File ''old'',
                     [''public'', ''models'', ''yolov8s-pose.onnx''] \<mapsto> File ''old''),
      console = [], exports = []\<rparr>"

text \<open>
  A package whose exporter accepts the arguments of lines 39-45 only, and one whose
  exporter cannot export with them.
\<close>

definition strict_env :: "string env" where
  "strict_env =
     sample_env\<lparr>export := \<lambda>model args F.
        if args = \<lparr>format = ''onnx'', imgsz = 640, dynamic = True, simplify = True, opset = 12\<rparr>
        then Inr (fst (splitext model) @ ''.onnx'', ''onnx-12'')
        else Inl (ExternalError ''unexpected arguments'')\<rparr>"

definition refusing_env :: "string env" where
  "refusing_env =
     sample_env\<lparr>export := \<lambda>model args F.
        if args = \<lparr>format = ''onnx'', imgsz = 640, dynamic = True, simplify = True, opset = 12\<rparr>
        then Inl (ExternalError ''unsupported layer'')
        else Inr (fst (splitext model) @ ''.onnx'', ''other'')\<rparr>"

text \<open>
  A platform where nothing fails; one where the package is not installed; one whose
  output is closed from the start; and one whose output is closed once the header is
  printed.
\<close>

definition quiet_platform :: platform where
  "quiet_platform = \<lparr>import_ultralytics = None, print_raises = (\<lambda>c m. None)\<rparr>"

definition no_package_platform :: platform where
  "no_package_platform =
     \<lparr>import_ultralytics = Some (ModuleNotFoundError ''ultralytics''), print_raises = (\<lambda>c m. None)\<rparr>"

definition closed_output_platform :: platform where
  "closed_output_platform = \<lparr>import_ultralytics = None, print_raises = (\<lambda>c m. Some BrokenPipeError)\<rparr>"

definition closing_output_platform :: platform where
  "closing_output_platform =
     \<lparr>import_ultralytics = None,
      print_raises = (\<lambda>c m. case c of [] \<Rightarrow> None | _ \<Rightarrow> Some BrokenPipeError)\<rparr>"

section \<open>Properties\<close>

subsection \<open>Path strings\<close>

lemma basename_no_slash: "CHR ''/'' \<notin> set (basename p)"
  unfolding basename_def by (auto dest: set_takeWhileD)

lemma set_splitext_fst: "set (fst (splitext p)) \<subseteq> set p"
  unfolding splitext_def Let_def by (auto dest: in_set_takeD)

lemma model_name_no_slash: "CHR ''/'' \<notin> set (model_name_of m)"
  unfolding model_name_of_def using set_splitext_fst [of "basename m"] basename_no_slash [of m] by auto

lemma split_slash_ne: "split_slash s \<noteq> []"
  by (induction s) (auto split: list.splits)

lemma split_slash_no_slash: "CHR ''/'' \<notin> set n \<Longrightarrow> split_slash n = [n]"
  by (induction n) auto

lemma split_slash_append: "split_slash (a @ CHR ''/'' # b) = split_slash a @ split_slash b"
  by (induction a) (auto simp: split_slash_ne split: list.splits)

lemma components_append:
  "components (a @ CHR ''/'' # b) = components a @ components b"
  unfolding components_def by (simp add: split_slash_append)

lemma components_single:
  "CHR ''/'' \<notin> set n \<Longrightarrow> n \<noteq> [] \<Longrightarrow> n \<noteq> ''.'' \<Longrightarrow> components n = [n]"
  unfolding components_def by (simp add: split_slash_no_slash)

lemma components_Nil: "components [] = []"
  unfolding components_def by simp

lemma path_of_join:
  assumes "CHR ''/'' \<notin> set n" "n \<noteq> []" "n \<noteq> ''.''"
  shows "path_of (join d n) = path_of d @ [n]"
proof -
  from assms(1,2) have n1: "take 1 n \<noteq> ''/''" by (cases n) auto
  show ?thesis
  proof (cases "d = []")
    case True
    with assms n1 show ?thesis
      by (simp add: join_def path_of_def components_single components_Nil)
  next
    case False
    then have hd_eq: "take 1 (d @ n) = take 1 d" "take 1 (d @ ''/'' @ n) = take 1 d"
      by (cases d; simp)+
    show ?thesis
    proof (cases "last d = CHR ''/''")
      case True
      with False obtain d' where d: "d = d' @ ''/''"
        by (metis append_butlast_last_id)
      have "components d = components d'"
        using components_append [of d' "[]"] by (simp add: d components_Nil)
      moreover have "components (d @ n) = components d' @ [n]"
        using components_append [of d' n] assms by (simp add: d components_single)
      ultimately show ?thesis
        using False True n1 hd_eq by (simp add: join_def path_of_def)
    next
      case nl: False
      have "components (d @ ''/'' @ n) = components d @ [n]"
        using components_append [of d n] assms by (simp add: components_single)
      then show ?thesis
        using False nl n1 hd_eq by (simp add: join_def path_of_def)
    qed
  qed
qed

lemma resolve_output_path:
  "resolve (output_path_of d m) = Some (path_of d @ [model_name_of m @ ''.onnx''])"
proof -
  let ?n = "model_name_of m @ ''.onnx''"
  have "CHR ''/'' \<notin> set ?n" using model_name_no_slash [of m] by simp
  moreover have "?n \<noteq> []" "?n \<noteq> ''.''" by auto
  ultimately have "path_of (join d ?n) = path_of d @ [?n]" by (rule path_of_join)
  moreover have "join d ?n \<noteq> []" unfolding join_def by auto
  ultimately show ?thesis unfolding output_path_of_def resolve_def by simp
qed











subsection \<open>Creating directories\<close>

lemma mkdir_Inr:
  "mkdir p F = Inr F' \<Longrightarrow> F p = None \<and> F (butlast p) = Some Dir \<and> F' = F(p \<mapsto> Dir)"
  unfolding mkdir_def by (auto split: if_splits option.splits node.splits)

lemma mkdir_exist_ok_Inr:
  "mkdir_exist_ok p F = Inr F' \<Longrightarrow>
     (F p = Some Dir \<and> F' = F) \<or> (F p = None \<and> F (butlast p) = Some Dir \<and> F' = F(p \<mapsto> Dir))"
  unfolding mkdir_exist_ok_def by (auto split: sum.splits if_splits dest: mkdir_Inr)

lemma mkdir_exist_ok_existing: "F p = Some Dir \<Longrightarrow> mkdir_exist_ok p F = Inr F"
  unfolding mkdir_exist_ok_def mkdir_def by simp

lemma mkdir_exist_ok_wf:
  assumes "mkdir_exist_ok p F = Inr F'" "wf_fs F"
  shows "wf_fs F'"
proof -
  from mkdir_exist_ok_Inr [OF assms(1)] show ?thesis
  proof
    assume "F p = Some Dir \<and> F' = F" with assms(2) show ?thesis by simp
  next
    assume a: "F p = None \<and> F (butlast p) = Some Dir \<and> F' = F(p \<mapsto> Dir)"
    show ?thesis unfolding wf_fs_def
    proof (intro allI impI)
      fix q assume q: "q \<noteq> []" "F' q \<noteq> None"
      show "F' (butlast q) = Some Dir"
      proof (cases "q = p")
        case True with a show ?thesis by auto
      next
        case False
        with q a have "F q \<noteq> None" by auto
        with assms(2) q have "F (butlast q) = Some Dir" unfolding wf_fs_def by blast
        with a show ?thesis by auto
      qed
    qed
  qed
qed

lemma grown_refl: "grown p F F"
  unfolding grown_def by simp

lemma take_butlast_ex: "\<exists>m. take n (butlast p) = take m p"
proof -
  have "take n (butlast p) = take (min n (length p - 1)) p"
    by (simp add: butlast_conv_take)
  then show ?thesis ..
qed

lemma grown_butlast:
  assumes "grown (butlast p) F F1"
  shows "grown p F F1"
  unfolding grown_def
proof (intro allI conjI impI)
  fix k assume "F k \<noteq> None"
  with assms show "F1 k = F k" unfolding grown_def by blast
next
  fix k assume k: "F k = None" "F1 k \<noteq> None"
  with assms show "F1 k = Some Dir" unfolding grown_def by blast
next
  fix k assume k: "F k = None" "F1 k \<noteq> None"
  with assms obtain n where "k = take n (butlast p)" unfolding grown_def by blast
  with take_butlast_ex [of n p] show "\<exists>n. k = take n p" by auto
qed

lemma grown_upd:
  assumes g: "grown p F F1" and a: "F1 p = None"
  shows "grown p F (F1(p \<mapsto> Dir))"
  unfolding grown_def
proof (intro allI conjI impI)
  fix k assume k: "F k \<noteq> None"
  with g have e: "F1 k = F k" unfolding grown_def by blast
  with k a have "k \<noteq> p" by auto
  with e show "(F1(p \<mapsto> Dir)) k = F k" by simp
next
  fix k assume k: "F k = None" "(F1(p \<mapsto> Dir)) k \<noteq> None"
  show "(F1(p \<mapsto> Dir)) k = Some Dir"
  proof (cases "k = p")
    case True then show ?thesis by simp
  next
    case False
    with k have "F1 k \<noteq> None" by simp
    with k(1) g have "F1 k = Some Dir" unfolding grown_def by blast
    with False show ?thesis by simp
  qed
next
  fix k assume k: "F k = None" "(F1(p \<mapsto> Dir)) k \<noteq> None"
  show "\<exists>n. k = take n p"
  proof (cases "k = p")
    case True
    have "p = take (length p) p" by simp
    with True show ?thesis by blast
  next
    case False
    with k have "F1 k \<noteq> None" by simp
    with k(1) g show ?thesis unfolding grown_def by blast
  qed
qed

lemma grown_mkdir: 
  assumes m: "mkdir_exist_ok p F1 = Inr F'" and g: "grown (butlast p) F F1"
  shows "grown p F F'"
proof -
  from g have gp: "grown p F F1" by (rule grown_butlast)
  from mkdir_exist_ok_Inr [OF m] show ?thesis
  proof
    assume "F1 p = Some Dir \<and> F' = F1"
    with gp show ?thesis by simp
  next
    assume a: "F1 p = None \<and> F1 (butlast p) = Some Dir \<and> F' = F1(p \<mapsto> Dir)"
    with grown_upd [OF gp] show ?thesis by simp
  qed
qed

lemma makedirs_path_Inr:
  "makedirs_path p F = Inr F' \<Longrightarrow> F' p = Some Dir \<and> grown p F F'"
proof (induction p F arbitrary: F' rule: makedirs_path.induct)
  case (1 p F)
  show ?case
  proof (cases "butlast p \<noteq> [] \<and> F (butlast p) = None")
    case True
    show ?thesis
    proof (cases "makedirs_path (butlast p) F")
      case (Inl e)
      with True "1.prems" have m: "mkdir_exist_ok p F = Inr F'"
        by (simp add: makedirs_path.simps [of p F] split: if_splits)
      from mkdir_exist_ok_Inr [OF m] have "F' p = Some Dir" by auto
      with grown_mkdir [OF m grown_refl] show ?thesis by simp
    next
      case (Inr F1)
      with True "1.prems" have m: "mkdir_exist_ok p F1 = Inr F'"
        by (simp add: makedirs_path.simps [of p F])
      from "1.IH" [OF True Inr] have g: "grown (butlast p) F F1" by simp
      from mkdir_exist_ok_Inr [OF m] have "F' p = Some Dir" by auto
      with grown_mkdir [OF m g] show ?thesis by simp
    qed
  next
    case False
    with "1.prems" have m: "mkdir_exist_ok p F = Inr F'"
      by (simp add: makedirs_path.simps [of p F])
    from mkdir_exist_ok_Inr [OF m] have "F' p = Some Dir" by auto
    with grown_mkdir [OF m grown_refl] show ?thesis by simp
  qed
qed

lemma makedirs_path_wf:
  "makedirs_path p F = Inr F' \<Longrightarrow> wf_fs F \<Longrightarrow> wf_fs F'"
proof (induction p F arbitrary: F' rule: makedirs_path.induct)
  case (1 p F)
  show ?case
  proof (cases "butlast p \<noteq> [] \<and> F (butlast p) = None")
    case True
    show ?thesis
    proof (cases "makedirs_path (butlast p) F")
      case (Inl e)
      with True "1.prems" have m: "mkdir_exist_ok p F = Inr F'"
        by (simp add: makedirs_path.simps [of p F] split: if_splits)
      from m "1.prems"(2) show ?thesis by (rule mkdir_exist_ok_wf)
    next
      case (Inr F1)
      with True "1.prems" have m: "mkdir_exist_ok p F1 = Inr F'"
        by (simp add: makedirs_path.simps [of p F])
      from "1.IH" [OF True Inr "1.prems"(2)] have "wf_fs F1" .
      with m show ?thesis by (rule mkdir_exist_ok_wf)
    qed
  next
    case False
    with "1.prems" have m: "mkdir_exist_ok p F = Inr F'"
      by (simp add: makedirs_path.simps [of p F])
    from m "1.prems"(2) show ?thesis by (rule mkdir_exist_ok_wf)
  qed
qed

lemma makedirs_path_existing:
  assumes "wf_fs F" "F p = Some Dir"
  shows "makedirs_path p F = Inr F"
proof -
  have "\<not> (butlast p \<noteq> [] \<and> F (butlast p) = None)"
  proof (cases "p = []")
    case True then show ?thesis by simp
  next
    case False
    with assms have "F (butlast p) = Some Dir" unfolding wf_fs_def by auto
    then show ?thesis by simp
  qed
  then show ?thesis
    using assms(2) by (auto simp: makedirs_path.simps [of p F] mkdir_exist_ok_existing)
qed

lemma wf_fs_ancestors:
  assumes "wf_fs F"
  shows "F p \<noteq> None \<Longrightarrow> n < length p \<Longrightarrow> F (take n p) = Some Dir"
proof (induction p rule: rev_induct)
  case Nil then show ?case by simp
next
  case (snoc x xs)
  have "xs @ [x] \<noteq> []" by simp
  with assms snoc.prems(1) have "F (butlast (xs @ [x])) = Some Dir"
    unfolding wf_fs_def by blast
  then have d: "F xs = Some Dir" by simp
  show ?case
  proof (cases "n < length xs")
    case True
    with snoc.IH d show ?thesis by simp
  next
    case False
    with snoc.prems(2) have "n = length xs" by simp
    with d show ?thesis by simp
  qed
qed

subsection \<open>The stages of a conversion\<close>

lemma run_export_Inr:
  assumes "run_export env h a F = Inr (op, F')"
  shows "\<exists>c k. export env h a F = Inr (op, c) \<and> resolve op = Some k \<and> F k \<noteq> Some Dir
           \<and> F (butlast k) = Some Dir \<and> F' = F(k \<mapsto> File c)"
  using assms unfolding run_export_def
  by (auto split: sum.splits prod.splits option.splits if_splits node.splits)

lemma rename_Inr:
  assumes "rename src dst F = Inr F'"
  shows "\<exists>s d c. resolve src = Some s \<and> resolve dst = Some d \<and> F s = Some (File c)
           \<and> F d \<noteq> Some Dir \<and> F (butlast d) = Some Dir \<and> F' = (F(s := None))(d \<mapsto> File c)"
  using assms unfolding rename_def
  by (auto split: sum.splits prod.splits option.splits if_splits node.splits)

lemma rename_file:
  assumes "resolve src = Some s" "resolve dst = Some d" "F s = Some (File c)"
    "F d \<noteq> Some Dir" "F (butlast d) = Some Dir"
  shows "rename src dst F = Inr ((F(s := None))(d \<mapsto> File c))"
  using assms unfolding rename_def by simp

lemma move_not_dir: "\<not> isdir dst F \<Longrightarrow> move src dst F = rename src dst F"
  unfolding move_def by simp

lemma convert_stages:
  assumes "convert_yolov8_to_onnx env m d st = (r, st')"
  shows
   "(\<exists>e. makedirs d (fs st) = Inl e \<and> r = Inl e
         \<and> st' = st\<lparr>console := console st @ [Converting m]\<rparr>)
  \<or> (\<exists>F1 e. makedirs d (fs st) = Inr F1 \<and> load env m F1 = Inl e \<and> r = Inl e
         \<and> st' = st\<lparr>fs := F1, console := console st @ [Converting m]\<rparr>)
  \<or> (\<exists>F1 h e. makedirs d (fs st) = Inr F1 \<and> load env m F1 = Inr h
         \<and> run_export env h onnx_args F1 = Inl e \<and> r = Inl e
         \<and> st' = st\<lparr>fs := F1, console := console st @ [Converting m],
                      exports := exports st @ [onnx_args]\<rparr>)
  \<or> (\<exists>F1 h op F3 e. makedirs d (fs st) = Inr F1 \<and> load env m F1 = Inr h
         \<and> run_export env h onnx_args F1 = Inr (op, F3)
         \<and> move op (output_path_of d m) F3 = Inl e \<and> r = Inl e
         \<and> st' = st\<lparr>fs := F3, console := console st @ [Converting m],
                      exports := exports st @ [onnx_args]\<rparr>)
  \<or> (\<exists>F1 h op F3 F5 e. makedirs d (fs st) = Inr F1 \<and> load env m F1 = Inr h
         \<and> run_export env h onnx_args F1 = Inr (op, F3)
         \<and> move op (output_path_of d m) F3 = Inr F5
         \<and> getsize (dir_size env) (output_path_of d m) F5 = Inl e \<and> r = Inl e
         \<and> st' = st\<lparr>fs := F5,
                      console := console st @ [Converting m, Converted (model_name_of m),
                                   SavedTo (output_path_of d m), Optimized],
                      exports := exports st @ [onnx_args]\<rparr>)
  \<or> (\<exists>F1 h op F3 F5 n. makedirs d (fs st) = Inr F1 \<and> load env m F1 = Inr h
         \<and> run_export env h onnx_args F1 = Inr (op, F3)
         \<and> move op (output_path_of d m) F3 = Inr F5
         \<and> getsize (dir_size env) (output_path_of d m) F5 = Inr n
         \<and> r = Inr (output_path_of d m)
         \<and> st' = st\<lparr>fs := F5,
                      console := console st @ [Converting m, Converted (model_name_of m),
                                   SavedTo (output_path_of d m), Optimized,
                                   FileSizeMB (real n / (1024 * 1024))],
                      exports := exports st @ [onnx_args]\<rparr>)"
  using assms
  unfolding convert_yolov8_to_onnx_def call_export_def Let_def print_def output_path_of_def
  by (auto split: sum.splits prod.splits)

subsection \<open>Sums\<close>

lemma sum_Inr_projr: "\<not> isl x \<Longrightarrow> x = Inr (projr x)"
  by (cases x) auto

subsection \<open>The loop of main\<close>




lemma convert_Inr:
  assumes "convert_yolov8_to_onnx env m d st = (Inr p, st')"
  shows "p = output_path_of d m \<and> exports st' = exports st @ [onnx_args] \<and>
         (\<exists>n. getsize (dir_size env) p (fs st') = Inr n \<and>
              console st' = console st @ [Converting m, Converted (model_name_of m),
                SavedTo p, Optimized, FileSizeMB (real n / (1024 * 1024))])"
  using convert_stages [OF assms] by auto









subsection \<open>Which failures end the run\<close>

lemma mkdir_exist_ok_Inl: "mkdir_exist_ok p F = Inl e \<Longrightarrow> is_Exception e"
  unfolding mkdir_exist_ok_def mkdir_def is_Exception_def
  by (auto split: sum.splits if_splits option.splits node.splits)

lemma makedirs_path_Inl: "makedirs_path p F = Inl e \<Longrightarrow> is_Exception e"
proof (induction p F rule: makedirs_path.induct)
  case (1 p F)
  show ?case
  proof (cases "butlast p \<noteq> [] \<and> F (butlast p) = None")
    case True
    show ?thesis
    proof (cases "makedirs_path (butlast p) F")
      case (Inl e')
      show ?thesis
      proof (cases "e' = FileExistsError")
        case True
        with \<open>butlast p \<noteq> [] \<and> F (butlast p) = None\<close> Inl "1.prems"
        have "mkdir_exist_ok p F = Inl e" by (simp add: makedirs_path.simps [of p F])
        then show ?thesis by (rule mkdir_exist_ok_Inl)
      next
        case False
        with \<open>butlast p \<noteq> [] \<and> F (butlast p) = None\<close> Inl "1.prems"
        have "e = e'" by (simp add: makedirs_path.simps [of p F])
        with "1.IH" [OF True] Inl show ?thesis by simp
      qed
    next
      case (Inr F1)
      with True "1.prems" have "mkdir_exist_ok p F1 = Inl e"
        by (simp add: makedirs_path.simps [of p F])
      then show ?thesis by (rule mkdir_exist_ok_Inl)
    qed
  next
    case False
    with "1.prems" have "mkdir_exist_ok p F = Inl e"
      by (simp add: makedirs_path.simps [of p F])
    then show ?thesis by (rule mkdir_exist_ok_Inl)
  qed
qed

lemma makedirs_Inl: "makedirs d F = Inl e \<Longrightarrow> is_Exception e"
  unfolding makedirs_def
  by (auto split: option.splits simp: is_Exception_def dest: makedirs_path_Inl)

lemma rename_Inl: "rename src dst F = Inl e \<Longrightarrow> is_Exception e"
  unfolding rename_def is_Exception_def
  by (auto split: option.splits node.splits if_splits prod.splits)

lemma move_Inl: "move src dst F = Inl e \<Longrightarrow> is_Exception e"
  unfolding move_def Let_def
  by (auto split: if_splits dest: rename_Inl simp: is_Exception_def)

lemma getsize_Inl: "getsize n s F = Inl e \<Longrightarrow> is_Exception e"
  unfolding getsize_def is_Exception_def
  by (auto split: option.splits node.splits)

lemma run_export_Inl:
  "run_export env h a F = Inl e \<Longrightarrow> is_Exception e \<or> export env h a F = Inl e"
  unfolding run_export_def is_Exception_def
  by (auto split: sum.splits prod.splits option.splits node.splits if_splits)

lemma convert_not_Exception:
  assumes "convert_yolov8_to_onnx env m d st = (Inl e, st')" and "\<not> is_Exception e"
  shows "(\<exists>F. load env m F = Inl e) \<or> (\<exists>h F. export env h onnx_args F = Inl e)"
  using convert_stages [OF assms(1)] assms(2)
  by (auto dest: makedirs_Inl move_Inl getsize_Inl run_export_Inl)

lemma loop_body_Inl:
  assumes "loop_body env m acc st = (Inl e, st')"
  shows "\<not> is_Exception e \<and>
         ((\<exists>F. load env m F = Inl e) \<or> (\<exists>h F. export env h onnx_args F = Inl e))"
proof -
  obtain r1 st1 where c: "convert_yolov8_to_onnx env m default_output_dir st = (r1, st1)"
    by (cases "convert_yolov8_to_onnx env m default_output_dir st")
  with assms have "r1 = Inl e \<and> \<not> is_Exception e"
    unfolding loop_body_def by (auto split: if_splits sum.splits)
  with c convert_not_Exception [of env m default_output_dir st e st1] show ?thesis by simp
qed

lemma main_loop_Inl:
  "main_loop env ms acc st = (Inl e, st') \<Longrightarrow>
     \<not> is_Exception e \<and>
     (\<exists>m \<in> set ms. (\<exists>F. load env m F = Inl e) \<or> (\<exists>h F. export env h onnx_args F = Inl e))"
proof (induction ms arbitrary: acc st)
  case Nil
  then show ?case by simp
next
  case (Cons m ms)
  obtain r1 st1 where b: "loop_body env m acc st = (r1, st1)"
    by (cases "loop_body env m acc st")
  show ?case
  proof (cases r1)
    case (Inl e1)
    with b Cons.prems have "e1 = e" by simp
    with b Inl loop_body_Inl [of env m acc st e st1] show ?thesis by simp
  next
    case (Inr acc1)
    with b Cons.prems have "main_loop env ms acc1 st1 = (Inl e, st')" by simp
    from Cons.IH [OF this] show ?thesis by auto
  qed
qed

lemma makedirs_blocked: "makedirs default_output_dir (fs blocked_state) = Inl NotADirectoryError"
proof -
  have "isl (makedirs default_output_dir (fs blocked_state))
        \<and> projl (makedirs default_output_dir (fs blocked_state)) = NotADirectoryError"
    by code_simp
  then show ?thesis
    by (cases "makedirs default_output_dir (fs blocked_state)") simp_all
qed

text \<open>
  C5, as the specification states it, fails: the output directory is made inside
  \<open>convert_yolov8_to_onnx\<close> (line 29), which \<open>main\<close> calls inside the \<open>try\<close> of its loop,
  so a failure to make it is caught like any other error of a conversion. Here a
  regular file named \<open>public\<close> stands in the way: \<open>os.makedirs\<close> fails for both models,
  both failures are printed, and \<open>main\<close> ends normally with its summary. And an error
  inside the loop can end the process: the prints of lines 81 and 83 are in the loop but
  outside the \<open>try\<close> block. With the first checkpoint missing and the output closed once
  the header is printed, the warning of line 83 raises and the script ends there.
\<close>

theorem output_dir_failure_not_fatal_counterexample:
  "makedirs default_output_dir (fs blocked_state) = Inl NotADirectoryError
   \<and> fst (main sample_env blocked_state) = Inr ()
   \<and> console (snd (main sample_env blocked_state))
     = [Header,
        Converting ''api/yolov8n-pose.pt'',
        ErrorConverting ''api/yolov8n-pose.pt'' NotADirectoryError,
        Converting ''api/yolov8s-pose.pt'',
        ErrorConverting ''api/yolov8s-pose.pt'' NotADirectoryError,
        Complete, ConvertedCount 0, NextSteps, Recommended]
   \<and> fst (script sample_env closing_output_platform missing_first_state) = Inl BrokenPipeError
   \<and> console (snd (script sample_env closing_output_platform missing_first_state)) = [Header]"
proof -
  note 1 = makedirs_blocked
  have 2: "fst (main sample_env blocked_state) = Inr ()" by code_simp
  have 3: "console (snd (main sample_env blocked_state))
     = [Header,
        Converting ''api/yolov8n-pose.pt'',
        ErrorConverting ''api/yolov8n-pose.pt'' NotADirectoryError,
        Converting ''api/yolov8s-pose.pt'',
        ErrorConverting ''api/yolov8s-pose.pt'' NotADirectoryError,
        Complete, ConvertedCount 0, NextSteps, Recommended]"
    by code_simp
  have 4: "fst (script sample_env closing_output_platform missing_first_state)
             = Inl BrokenPipeError"
    by code_simp
  have 5: "console (snd (script sample_env closing_output_platform missing_first_state))
             = [Header]"
    by code_simp
  from 1 2 3 4 5 show ?thesis by (intro conjI)
qed

subsection \<open>Which failures end the process\<close>

lemma print_io_cases:
  obtains (raised) e where "print_raises pf (console st) m = Some e" "print_io pf m st = (Inl e, st)"
  | (printed) "print_raises pf (console st) m = None" "print_io pf m st = (Inr (), print m st)"
  unfolding print_io_def by (cases "print_raises pf (console st) m") auto

lemma print_io_Inl: "print_io pf m st = (Inl e, st') \<Longrightarrow> print_raises pf (console st) m = Some e \<and> st' = st"
  unfolding print_io_def by (auto split: option.splits)

lemma print_io_Inr: "print_io pf m st = (Inr u, st') \<Longrightarrow> st' = print m st"
  unfolding print_io_def by (auto split: option.splits)

lemma prints_io_Inl:
  "prints_io pf ms st = (Inl e, st') \<Longrightarrow> \<exists>c m. m \<in> set ms \<and> print_raises pf c m = Some e"
proof (induction ms arbitrary: st)
  case Nil
  then show ?case by simp
next
  case (Cons m ms)
  show ?case
  proof (cases rule: print_io_cases [of pf st m])
    case (raised e')
    with Cons.prems have "e' = e" by simp
    with raised(1) show ?thesis by auto
  next
    case printed
    with Cons.prems have "prints_io pf ms (print m st) = (Inl e, st')" by simp
    from Cons.IH [OF this] show ?thesis by auto
  qed
qed

lemma prints_io_quiet:
  "\<forall>c m. print_raises pf c m = None \<Longrightarrow>
   prints_io pf ms st = (Inr (), st\<lparr>console := console st @ ms\<rparr>)"
proof (induction ms arbitrary: st)
  case Nil
  show ?case by simp
next
  case (Cons m ms)
  from Cons.prems have "print_io pf m st = (Inr (), print m st)" by (simp add: print_io_def)
  with Cons.IH [OF Cons.prems, of "print m st"] show ?case by (simp add: print_def)
qed

lemma convert_io_quiet:
  assumes "\<forall>c m. print_raises pf c m = None"
  shows "convert_yolov8_to_onnx_io env pf m d st = convert_yolov8_to_onnx env m d st"
  unfolding convert_yolov8_to_onnx_io_def convert_yolov8_to_onnx_def Let_def
  using assms
  by (simp add: print_io_def print_def split: sum.splits prod.splits)

lemma loop_body_io_quiet:
  assumes "\<forall>c m. print_raises pf c m = None"
  shows "loop_body_io env pf m acc st = loop_body env m acc st"
  unfolding loop_body_io_def loop_body_def convert_io_quiet [OF assms]
  using assms by (simp add: print_io_def split: sum.splits prod.splits)

lemma main_loop_io_quiet:
  assumes "\<forall>c m. print_raises pf c m = None"
  shows "main_loop_io env pf ms acc st = main_loop env ms acc st"
  by (induction ms arbitrary: acc st)
     (simp_all add: loop_body_io_quiet [OF assms] split: sum.splits prod.splits)

lemma script_quiet:
  assumes "import_ultralytics pf = None" and "\<forall>c m. print_raises pf c m = None"
  shows "script env pf st = main env st"
  unfolding script_def main_io_def main_def run_batch_io_def run_batch_def
  using assms
  by (simp add: print_io_def main_loop_io_quiet [OF assms(2)] prints_io_quiet [OF assms(2)]
        split: sum.splits prod.splits)

lemma outside_try_summary: "m \<in> set (summary acc) \<Longrightarrow> outside_try m"
  unfolding summary_def outside_try_def by auto

lemma loop_body_io_Inl:
  assumes "loop_body_io env pf m acc st = (Inl e, st')" and "is_Exception e"
  shows "\<exists>c m'. outside_try m' \<and> print_raises pf c m' = Some e"
proof (cases "exists m (fs st)")
  case False
  with assms(1) have "print_io pf (NotFound m) st = (Inl e, st')"
    unfolding loop_body_io_def by (auto split: sum.splits prod.splits)
  from print_io_Inl [OF this] have "print_raises pf (console st) (NotFound m) = Some e" by simp
  moreover have "outside_try (NotFound m)" by (simp add: outside_try_def)
  ultimately show ?thesis by blast
next
  case True
  obtain r1 st1 where c: "convert_yolov8_to_onnx_io env pf m default_output_dir st = (r1, st1)"
    by (cases "convert_yolov8_to_onnx_io env pf m default_output_dir st")
  show ?thesis
  proof (cases r1)
    case (Inr p)
    with True c assms(1) show ?thesis unfolding loop_body_io_def by simp
  next
    case (Inl e1)
    show ?thesis
    proof (cases "is_Exception e1")
      case False
      with True c Inl assms(1) have "e = e1" unfolding loop_body_io_def by simp
      with False assms(2) show ?thesis by simp
    next
      case ex: True
      with True c Inl assms(1)
      have "print_io pf (ErrorConverting m e1) st1 = (Inl e, st')"
        unfolding loop_body_io_def by (auto split: sum.splits prod.splits)
      from print_io_Inl [OF this]
      have "print_raises pf (console st1) (ErrorConverting m e1) = Some e" by simp
      moreover have "outside_try (ErrorConverting m e1)" by (simp add: outside_try_def)
      ultimately show ?thesis by blast
    qed
  qed
qed

lemma main_loop_io_Inl:
  "main_loop_io env pf ms acc st = (Inl e, st') \<Longrightarrow> is_Exception e \<Longrightarrow>
   \<exists>c m'. outside_try m' \<and> print_raises pf c m' = Some e"
proof (induction ms arbitrary: acc st)
  case Nil
  then show ?case by simp
next
  case (Cons m ms)
  obtain r1 st1 where b: "loop_body_io env pf m acc st = (r1, st1)"
    by (cases "loop_body_io env pf m acc st")
  show ?case
  proof (cases r1)
    case (Inl e1)
    with b Cons.prems(1) have "loop_body_io env pf m acc st = (Inl e, st')" by simp
    from loop_body_io_Inl [OF this Cons.prems(2)] show ?thesis .
  next
    case (Inr acc1)
    with b Cons.prems(1) have "main_loop_io env pf ms acc1 st1 = (Inl e, st')" by simp
    from Cons.IH [OF this Cons.prems(2)] show ?thesis .
  qed
qed

lemma main_loop_io_append:
  "main_loop_io env pf (ms @ rest) acc st =
     (case main_loop_io env pf ms acc st of
        (Inl e, st') \<Rightarrow> (Inl e, st')
      | (Inr acc', st') \<Rightarrow> main_loop_io env pf rest acc' st')"
  by (induction ms arbitrary: acc st) (simp_all split: sum.splits prod.splits)

lemma script_Inl:
  assumes "script env pf st = (Inl e, st')" and "is_Exception e"
  shows "import_ultralytics pf = Some e \<or> (\<exists>c m. outside_try m \<and> print_raises pf c m = Some e)"
proof (cases "import_ultralytics pf")
  case (Some e1)
  with assms(1) show ?thesis by (simp add: script_def)
next
  case None
  with assms(1) have r: "run_batch_io env pf models st = (Inl e, st')"
    by (simp add: script_def main_io_def)
  show ?thesis
  proof (cases rule: print_io_cases [of pf st Header])
    case (raised e1)
    with r have "e1 = e" by (simp add: run_batch_io_def)
    with raised(1) have "print_raises pf (console st) Header = Some e" by simp
    moreover have "outside_try Header" by (simp add: outside_try_def)
    ultimately show ?thesis by blast
  next
    case printed
    obtain r1 st1 where l: "main_loop_io env pf models [] (print Header st) = (r1, st1)"
      by (cases "main_loop_io env pf models [] (print Header st)")
    show ?thesis
    proof (cases r1)
      case (Inl e1)
      with printed l r have "main_loop_io env pf models [] (print Header st) = (Inl e, st')"
        by (simp add: run_batch_io_def)
      from main_loop_io_Inl [OF this assms(2)] show ?thesis by simp
    next
      case (Inr acc)
      with printed l r have "prints_io pf (summary acc) st1 = (Inl e, st')"
        by (simp add: run_batch_io_def)
      from prints_io_Inl [OF this] outside_try_summary show ?thesis by blast
    qed
  qed
qed

lemma convert_io_makedirs_failed:
  assumes "print_raises pf (console st) (Converting m) = None" and "makedirs d (fs st) = Inl e"
  shows "convert_yolov8_to_onnx_io env pf m d st = (Inl e, print (Converting m) st)"
  unfolding convert_yolov8_to_onnx_io_def using assms by (simp add: print_io_def print_def)

lemma loop_body_io_caught:
  assumes "exists m (fs st)" and "convert_yolov8_to_onnx_io env pf m default_output_dir st = (Inl e, st')"
    and "is_Exception e"
  shows "case print_raises pf (console st') (ErrorConverting m e) of
           None \<Rightarrow> loop_body_io env pf m acc st = (Inr acc, print (ErrorConverting m e) st')
         | Some e' \<Rightarrow> loop_body_io env pf m acc st = (Inl e', st')"
  unfolding loop_body_io_def using assms by (simp add: print_io_def split: option.splits)

lemma loop_body_io_not_caught:
  assumes "exists m (fs st)" and "convert_yolov8_to_onnx_io env pf m default_output_dir st = (Inl e, st')"
    and "\<not> is_Exception e"
  shows "loop_body_io env pf m acc st = (Inl e, st')"
  unfolding loop_body_io_def using assms by simp

lemma main_loop_io_raised:
  assumes "main_loop_io env pf ms acc st = (Inr acc', s1)"
    and "loop_body_io env pf m acc' s1 = (Inl e, s2)"
  shows "main_loop_io env pf (ms @ m # rest) acc st = (Inl e, s2)"
  using assms by (simp add: main_loop_io_append)

lemma script_loop_raised:
  assumes "import_ultralytics pf = None" and "print_raises pf (console st) Header = None"
    and "main_loop_io env pf models [] (print Header st) = (Inl e, st')"
  shows "script env pf st = (Inl e, st')"
  unfolding script_def main_io_def run_batch_io_def using assms by (simp add: print_io_def)

lemma script_summary_raised:
  assumes "import_ultralytics pf = None" and "print_raises pf (console st) Header = None"
    and "main_loop_io env pf models [] (print Header st) = (Inr acc, st')"
    and "prints_io pf (summary acc) st' = (Inl e, st'')"
  shows "script env pf st = (Inl e, st'')"
  unfolding script_def main_io_def run_batch_io_def using assms by (simp add: print_io_def)

text \<open>
  C5, amended. The only unhandled failure path for an error is outside the \<open>try\<close> block
  of the loop: an \<open>Exception\<close> that ends the script was raised by the import of line 12
  or by one of the prints of \<open>main\<close> (the header, the message for a failed or a missing
  model, the summary), and each of these does end it. Every \<open>Exception\<close> raised inside a
  conversion is caught, printed and not fatal, and a failure to make the output
  directory is one of them: it leaves \<open>convert_yolov8_to_onnx\<close> as an \<open>Exception\<close>, inside
  the \<open>try\<close> block. What a conversion raises that is not an \<open>Exception\<close> is not caught.
  When the import and every print succeed, the script is \<open>main\<close> as embedded above.
\<close>

theorem only_errors_outside_try_are_fatal:
  "(\<forall>e st'. script env pf st = (Inl e, st') \<longrightarrow> is_Exception e \<longrightarrow>
       import_ultralytics pf = Some e \<or> (\<exists>c m. outside_try m \<and> print_raises pf c m = Some e))
   \<and> (\<forall>e. import_ultralytics pf = Some e \<longrightarrow> script env pf st = (Inl e, st))
   \<and> (\<forall>e. import_ultralytics pf = None \<longrightarrow> print_raises pf (console st) Header = Some e \<longrightarrow>
         script env pf st = (Inl e, st))
   \<and> (\<forall>m acc e. \<not> exists m (fs st) \<longrightarrow> print_raises pf (console st) (NotFound m) = Some e \<longrightarrow>
         loop_body_io env pf m acc st = (Inl e, st))
   \<and> (\<forall>m acc e st'. exists m (fs st) \<longrightarrow>
         convert_yolov8_to_onnx_io env pf m default_output_dir st = (Inl e, st') \<longrightarrow> is_Exception e \<longrightarrow>
         (case print_raises pf (console st') (ErrorConverting m e) of
            None \<Rightarrow> loop_body_io env pf m acc st = (Inr acc, print (ErrorConverting m e) st')
          | Some e' \<Rightarrow> loop_body_io env pf m acc st = (Inl e', st')))
   \<and> (\<forall>m acc e st'. exists m (fs st) \<longrightarrow>
         convert_yolov8_to_onnx_io env pf m default_output_dir st = (Inl e, st') \<longrightarrow> \<not> is_Exception e \<longrightarrow>
         loop_body_io env pf m acc st = (Inl e, st'))
   \<and> (\<forall>m e. print_raises pf (console st) (Converting m) = None \<longrightarrow>
         makedirs default_output_dir (fs st) = Inl e \<longrightarrow>
         is_Exception e
         \<and> convert_yolov8_to_onnx_io env pf m default_output_dir st = (Inl e, print (Converting m) st))
   \<and> (\<forall>ms m rest acc acc' s1 e s2. main_loop_io env pf ms acc st = (Inr acc', s1) \<longrightarrow>
         loop_body_io env pf m acc' s1 = (Inl e, s2) \<longrightarrow>
         main_loop_io env pf (ms @ m # rest) acc st = (Inl e, s2))
   \<and> (\<forall>e st'. import_ultralytics pf = None \<longrightarrow> print_raises pf (console st) Header = None \<longrightarrow>
         main_loop_io env pf models [] (print Header st) = (Inl e, st') \<longrightarrow>
         script env pf st = (Inl e, st'))
   \<and> (\<forall>acc e st' st''. import_ultralytics pf = None \<longrightarrow>
         print_raises pf (console st) Header = None \<longrightarrow>
         main_loop_io env pf models [] (print Header st) = (Inr acc, st') \<longrightarrow>
         prints_io pf (summary acc) st' = (Inl e, st'') \<longrightarrow>
         script env pf st = (Inl e, st''))
   \<and> (import_ultralytics pf = None \<longrightarrow> (\<forall>c m. print_raises pf c m = None) \<longrightarrow>
         script env pf st = main env st)
   \<and> (\<forall>m rest acc acc' s1. loop_body_io env pf m acc st = (Inr acc', s1) \<longrightarrow>
         main_loop_io env pf (m # rest) acc st = main_loop_io env pf rest acc' s1)"
proof (intro conjI allI impI)
  fix e st'
  assume "script env pf st = (Inl e, st')" "is_Exception e"
  then show "import_ultralytics pf = Some e
             \<or> (\<exists>c m. outside_try m \<and> print_raises pf c m = Some e)"
    by (rule script_Inl)
next
  fix e assume "import_ultralytics pf = Some e"
  then show "script env pf st = (Inl e, st)" by (simp add: script_def)
next
  fix e assume "import_ultralytics pf = None" "print_raises pf (console st) Header = Some e"
  then show "script env pf st = (Inl e, st)"
    by (simp add: script_def main_io_def run_batch_io_def print_io_def)
next
  fix m acc e
  assume "\<not> exists m (fs st)" "print_raises pf (console st) (NotFound m) = Some e"
  then show "loop_body_io env pf m acc st = (Inl e, st)"
    by (simp add: loop_body_io_def print_io_def)
next
  fix m acc e st'
  assume "exists m (fs st)" "convert_yolov8_to_onnx_io env pf m default_output_dir st = (Inl e, st')"
    "is_Exception e"
  then show "case print_raises pf (console st') (ErrorConverting m e) of
            None \<Rightarrow> loop_body_io env pf m acc st = (Inr acc, print (ErrorConverting m e) st')
          | Some e' \<Rightarrow> loop_body_io env pf m acc st = (Inl e', st')"
    by (rule loop_body_io_caught)
next
  fix m acc e st'
  assume "exists m (fs st)" "convert_yolov8_to_onnx_io env pf m default_output_dir st = (Inl e, st')"
    "\<not> is_Exception e"
  then show "loop_body_io env pf m acc st = (Inl e, st')" by (rule loop_body_io_not_caught)
next
  fix m e
  assume a: "print_raises pf (console st) (Converting m) = None"
    "makedirs default_output_dir (fs st) = Inl e"
  from a(2) show "is_Exception e" by (rule makedirs_Inl)
  from a show "convert_yolov8_to_onnx_io env pf m default_output_dir st = (Inl e, print (Converting m) st)"
    by (rule convert_io_makedirs_failed)
next
  fix ms m rest acc acc' s1 e s2
  assume "main_loop_io env pf ms acc st = (Inr acc', s1)"
    "loop_body_io env pf m acc' s1 = (Inl e, s2)"
  then show "main_loop_io env pf (ms @ m # rest) acc st = (Inl e, s2)"
    by (rule main_loop_io_raised)
next
  fix e st'
  assume "import_ultralytics pf = None" "print_raises pf (console st) Header = None"
    "main_loop_io env pf models [] (print Header st) = (Inl e, st')"
  then show "script env pf st = (Inl e, st')" by (rule script_loop_raised)
next
  fix acc e st' st''
  assume "import_ultralytics pf = None" "print_raises pf (console st) Header = None"
    "main_loop_io env pf models [] (print Header st) = (Inr acc, st')"
    "prints_io pf (summary acc) st' = (Inl e, st'')"
  then show "script env pf st = (Inl e, st'')" by (rule script_summary_raised)
next
  assume "import_ultralytics pf = None" "\<forall>c m. print_raises pf c m = None"
  then show "script env pf st = main env st" by (rule script_quiet)
next
  fix m rest acc acc' s1
  assume "loop_body_io env pf m acc st = (Inr acc', s1)"
  then show "main_loop_io env pf (m # rest) acc st = main_loop_io env pf rest acc' s1" by simp
qed

theorem only_errors_outside_try_are_fatal_witness:
  "script sample_env no_package_platform sample_state
     = (Inl (ModuleNotFoundError ''ultralytics''), sample_state)
   \<and> script sample_env closed_output_platform sample_state = (Inl BrokenPipeError, sample_state)
   \<and> (\<exists>c m. outside_try m \<and> print_raises closed_output_platform c m = Some BrokenPipeError)
   \<and> script sample_env closing_output_platform missing_first_state
     = (Inl BrokenPipeError, print Header missing_first_state)
   \<and> loop_body_io sample_env quiet_platform ''api/yolov8n-pose.pt'' [] blocked_state
     = (Inr [], print (ErrorConverting ''api/yolov8n-pose.pt'' NotADirectoryError)
                  (print (Converting ''api/yolov8n-pose.pt'') blocked_state))
   \<and> script sample_env quiet_platform blocked_state = main sample_env blocked_state"
proof -
  let ?n = "''api/yolov8n-pose.pt''"
  note N = only_errors_outside_try_are_fatal [of sample_env no_package_platform sample_state]
  note C = only_errors_outside_try_are_fatal [of sample_env closed_output_platform sample_state]
  note H = only_errors_outside_try_are_fatal
             [of sample_env closing_output_platform "print Header missing_first_state"]
  note M = only_errors_outside_try_are_fatal
             [of sample_env closing_output_platform missing_first_state]
  note B = only_errors_outside_try_are_fatal [of sample_env quiet_platform blocked_state]
  have "import_ultralytics no_package_platform = Some (ModuleNotFoundError ''ultralytics'')"
    by (simp add: no_package_platform_def)
  from N [THEN conjunct2, THEN conjunct1, THEN spec, THEN mp, OF this]
  have 1: "script sample_env no_package_platform sample_state
     = (Inl (ModuleNotFoundError ''ultralytics''), sample_state)" .
  have ci: "import_ultralytics closed_output_platform = None"
    and ch: "print_raises closed_output_platform (console sample_state) Header
               = Some BrokenPipeError"
    by (simp_all add: closed_output_platform_def)
  from C [THEN conjunct2, THEN conjunct2, THEN conjunct1, THEN spec, THEN mp, THEN mp, OF ci ch]
  have 2: "script sample_env closed_output_platform sample_state
             = (Inl BrokenPipeError, sample_state)" .
  have ex: "is_Exception BrokenPipeError" by (simp add: is_Exception_def)
  from C [THEN conjunct1, THEN spec, THEN spec, THEN mp, THEN mp, OF 2 ex] ci
  have 3: "\<exists>c m. outside_try m \<and> print_raises closed_output_platform c m = Some BrokenPipeError"
    by simp
  have gi: "import_ultralytics closing_output_platform = None"
    and gh: "print_raises closing_output_platform (console missing_first_state) Header = None"
    and gn: "print_raises closing_output_platform (console (print Header missing_first_state))
               (NotFound ?n) = Some BrokenPipeError"
    by (simp_all add: closing_output_platform_def missing_first_state_def print_def)
  have "\<not> exists ?n (fs missing_first_state)" by code_simp
  then have ne: "\<not> exists ?n (fs (print Header missing_first_state))" by (simp add: print_def)
  from H [THEN conjunct2, THEN conjunct2, THEN conjunct2, THEN conjunct1,
          THEN spec, THEN spec, THEN spec, THEN mp, THEN mp, OF ne gn]
  have lb: "loop_body_io sample_env closing_output_platform ?n []
              (print Header missing_first_state)
            = (Inl BrokenPipeError, print Header missing_first_state)" .
  have l0: "main_loop_io sample_env closing_output_platform [] []
              (print Header missing_first_state) = (Inr [], print Header missing_first_state)"
    by simp
  from H [THEN conjunct2, THEN conjunct2, THEN conjunct2, THEN conjunct2, THEN conjunct2,
          THEN conjunct2, THEN conjunct2, THEN conjunct1,
          THEN spec, THEN spec, THEN spec, THEN spec, THEN spec, THEN spec, THEN spec,
          THEN spec, THEN mp, THEN mp, OF l0 lb, of "[''api/yolov8s-pose.pt'']"]
  have ml: "main_loop_io sample_env closing_output_platform models []
              (print Header missing_first_state)
            = (Inl BrokenPipeError, print Header missing_first_state)"
    by (simp add: models_def)
  from M [THEN conjunct2, THEN conjunct2, THEN conjunct2, THEN conjunct2, THEN conjunct2,
          THEN conjunct2, THEN conjunct2, THEN conjunct2, THEN conjunct1,
          THEN spec, THEN spec, THEN mp, THEN mp, THEN mp, OF gi gh ml]
  have 4: "script sample_env closing_output_platform missing_first_state
     = (Inl BrokenPipeError, print Header missing_first_state)" .
  have qc: "print_raises quiet_platform (console blocked_state) (Converting ?n) = None"
    and qi: "import_ultralytics quiet_platform = None"
    and qa: "\<forall>c m. print_raises quiet_platform c m = None"
    by (simp_all add: quiet_platform_def)
  from B [THEN conjunct2, THEN conjunct2, THEN conjunct2, THEN conjunct2, THEN conjunct2,
          THEN conjunct2, THEN conjunct1, THEN spec, THEN spec, THEN mp, THEN mp,
          OF qc makedirs_blocked]
  have ie: "is_Exception NotADirectoryError"
    and cv: "convert_yolov8_to_onnx_io sample_env quiet_platform ?n default_output_dir blocked_state
               = (Inl NotADirectoryError, print (Converting ?n) blocked_state)"
    by simp_all
  have be: "exists ?n (fs blocked_state)" by code_simp
  have qe: "print_raises quiet_platform (console (print (Converting ?n) blocked_state))
              (ErrorConverting ?n NotADirectoryError) = None"
    by (simp add: quiet_platform_def)
  from B [THEN conjunct2, THEN conjunct2, THEN conjunct2, THEN conjunct2, THEN conjunct1,
          THEN spec, THEN spec, THEN spec, THEN spec, THEN mp, THEN mp, THEN mp,
          OF be cv ie, of "[]"] qe
  have 5: "loop_body_io sample_env quiet_platform ?n [] blocked_state
     = (Inr [], print (ErrorConverting ?n NotADirectoryError)
                  (print (Converting ?n) blocked_state))"
    by simp
  from B [THEN conjunct2, THEN conjunct2, THEN conjunct2, THEN conjunct2, THEN conjunct2,
          THEN conjunct2, THEN conjunct2, THEN conjunct2, THEN conjunct2, THEN conjunct2,
          THEN conjunct1, THEN mp, THEN mp, OF qi qa]
  have 6: "script sample_env quiet_platform blocked_state = main sample_env blocked_state" .
  from 1 2 3 4 5 6 show ?thesis by (intro conjI)
qed

subsection \<open>What the steps of a conversion do to the filesystem\<close>

lemma wf_fs_put_file:
  assumes w: "wf_fs F" and k: "F k \<noteq> Some Dir" and p: "F (butlast k) = Some Dir"
  shows "wf_fs (F(k \<mapsto> File c))"
  unfolding wf_fs_def
proof (intro allI impI)
  fix q assume q: "q \<noteq> []" "(F(k \<mapsto> File c)) q \<noteq> None"
  from k p have nk: "butlast k \<noteq> k" by auto
  show "(F(k \<mapsto> File c)) (butlast q) = Some Dir"
  proof (cases "q = k")
    case True
    with p nk show ?thesis by simp
  next
    case False
    with q have "F q \<noteq> None" by simp
    with w q(1) have d: "F (butlast q) = Some Dir" unfolding wf_fs_def by blast
    with k have "butlast q \<noteq> k" by auto
    with d show ?thesis by simp
  qed
qed

lemma wf_fs_remove_file:
  assumes w: "wf_fs F" and s: "F s = Some (File c)"
  shows "wf_fs (F(s := None))"
  unfolding wf_fs_def
proof (intro allI impI)
  fix q assume q: "q \<noteq> []" "(F(s := None)) q \<noteq> None"
  then have "F q \<noteq> None" by (auto split: if_splits)
  with w q(1) have d: "F (butlast q) = Some Dir" unfolding wf_fs_def by blast
  with s have "butlast q \<noteq> s" by auto
  with d show "(F(s := None)) (butlast q) = Some Dir" by simp
qed

lemma run_export_wf:
  assumes "run_export env h a F = Inr (op, F')" "wf_fs F"
  shows "wf_fs F'"
proof -
  from run_export_Inr [OF assms(1)] obtain c k where
    "F k \<noteq> Some Dir" "F (butlast k) = Some Dir" "F' = F(k \<mapsto> File c)" by blast
  with assms(2) show ?thesis by (simp add: wf_fs_put_file)
qed

lemma wf_fs_move_file:
  assumes w: "wf_fs F" and s: "F s = Some (File c)" and d: "F d \<noteq> Some Dir"
    and p: "F (butlast d) = Some Dir"
  shows "wf_fs ((F(s := None))(d \<mapsto> File c))"
proof -
  from w s have w': "wf_fs (F(s := None))" by (rule wf_fs_remove_file)
  from d have d': "(F(s := None)) d \<noteq> Some Dir" by simp
  from s p have "butlast d \<noteq> s" by auto
  with p have p': "(F(s := None)) (butlast d) = Some Dir" by simp
  from w' d' p' show ?thesis by (rule wf_fs_put_file)
qed

lemma move_Inr:
  assumes "move src dst F = Inr F'"
  shows "\<exists>s c d. resolve src = Some s \<and> F s = Some (File c) \<and> F d \<noteq> Some Dir
           \<and> F (butlast d) = Some Dir \<and> F' = (F(s := None))(d \<mapsto> File c)
           \<and> (if isdir dst F then F d = None else resolve dst = Some d)"
proof (cases "isdir dst F")
  case False
  with assms have "rename src dst F = Inr F'" by (simp add: move_not_dir)
  from rename_Inr [OF this] False show ?thesis by auto
next
  case True
  show ?thesis
  proof (cases "exists src F \<and> resolve src = resolve dst")
    case same: True
    with True assms have r: "rename src dst F = Inr F'" by (simp add: move_def)
    from rename_Inr [OF r] obtain s d c where
      "resolve src = Some s" "resolve dst = Some d" "F s = Some (File c)" by blast
    with same True show ?thesis by (simp add: isdir_def)
  next
    case False
    let ?rd = "join dst (basename (rstrip_slash src))"
    from True False assms have e: "\<not> exists ?rd F" and r: "rename src ?rd F = Inr F'"
      by (auto simp: move_def Let_def split: if_splits)
    from rename_Inr [OF r] obtain s d c where
      f: "resolve src = Some s" "F s = Some (File c)" "F d \<noteq> Some Dir"
      "F (butlast d) = Some Dir" "F' = (F(s := None))(d \<mapsto> File c)"
      and rd: "resolve ?rd = Some d" by blast
    from e rd have "F d = None" by (simp add: exists_def)
    with f True show ?thesis
      by (intro exI [of _ s] exI [of _ c] exI [of _ d]) simp
  qed
qed

lemma move_wf:
  assumes "move src dst F = Inr F'" "wf_fs F"
  shows "wf_fs F'"
proof -
  from move_Inr [OF assms(1)] obtain s c d where
    s: "F s = Some (File c)" and d: "F d \<noteq> Some Dir" and p: "F (butlast d) = Some Dir"
    and F': "F' = (F(s := None))(d \<mapsto> File c)" by blast
  show ?thesis unfolding F' using assms(2) s d p by (rule wf_fs_move_file)
qed

lemma run_export_dirs:
  assumes "run_export env h a F = Inr (op, F')"
  shows "F' q = Some Dir \<longleftrightarrow> F q = Some Dir"
proof -
  from run_export_Inr [OF assms] obtain c k where
    "F k \<noteq> Some Dir" "F' = F(k \<mapsto> File c)" by blast
  then show ?thesis by auto
qed

lemma move_dirs:
  assumes "move src dst F = Inr F'"
  shows "F' q = Some Dir \<longleftrightarrow> F q = Some Dir"
proof -
  from move_Inr [OF assms] obtain s c d where
    "F s = Some (File c)" "F d \<noteq> Some Dir" "F' = (F(s := None))(d \<mapsto> File c)" by blast
  then show ?thesis by auto
qed

lemma move_getsize:
  assumes "move src dst F = Inr F'"
  shows "\<exists>n. getsize dsize dst F' = Inr n"
proof -
  from move_Inr [OF assms] obtain s c d where
    s: "F s = Some (File c)" and F': "F' = (F(s := None))(d \<mapsto> File c)"
    and i: "if isdir dst F then F d = None else resolve dst = Some d" by blast
  show ?thesis
  proof (cases "isdir dst F")
    case True
    then obtain k where k: "resolve dst = Some k" "F k = Some Dir"
      by (auto simp: isdir_def split: option.splits)
    with s i True F' have "F' k = Some Dir" by auto
    with k show ?thesis by (simp add: getsize_def)
  next
    case False
    with i F' show ?thesis by (simp add: getsize_def)
  qed
qed

lemma makedirs_Inr:
  assumes "makedirs d F = Inr F1"
  shows "resolve d = Some (path_of d) \<and> F1 (path_of d) = Some Dir \<and> grown (path_of d) F F1"
  using assms makedirs_path_Inr [of "path_of d" F F1]
  by (auto simp: makedirs_def resolve_def split: if_splits)

lemma makedirs_wf: "makedirs d F = Inr F1 \<Longrightarrow> wf_fs F \<Longrightarrow> wf_fs F1"
  by (auto simp: makedirs_def split: option.splits intro: makedirs_path_wf)

lemma makedirs_existing:
  assumes "wf_fs F" "isdir d F"
  shows "makedirs d F = Inr F"
  using assms by (auto simp: makedirs_def isdir_def split: option.splits intro: makedirs_path_existing)

lemma not_take_snoc: "p @ [x] \<noteq> take n p"
proof
  assume "p @ [x] = take n p"
  then have "length (p @ [x]) = length (take n p)" by simp
  then show False by simp
qed

lemma grown_below:
  assumes "grown p F F1"
  shows "F1 (p @ [x]) = F (p @ [x])"
proof (cases "F (p @ [x])")
  case None
  show ?thesis
  proof (cases "F1 (p @ [x])")
    case n: None with None show ?thesis by simp
  next
    case (Some v)
    with None assms obtain n where "p @ [x] = take n p" unfolding grown_def by blast
    with not_take_snoc [of p x n] show ?thesis by simp
  qed
next
  case (Some v)
  with assms show ?thesis unfolding grown_def by auto
qed

lemma grown_dirs: "grown p F F1 \<Longrightarrow> F q = Some Dir \<Longrightarrow> F1 q = Some Dir"
  unfolding grown_def by auto

lemma grown_dom: "grown p F F1 \<Longrightarrow> F q \<noteq> None \<Longrightarrow> F1 q = F q"
  unfolding grown_def by auto

lemma isdir_output_path:
  "isdir (output_path_of d m) F \<longleftrightarrow> F (path_of d @ [model_name_of m @ ''.onnx'']) = Some Dir"
  by (simp add: isdir_def resolve_output_path)

lemma makedirs_output_path:
  assumes "makedirs d F = Inr F1"
  shows "F1 (path_of d @ [x]) = F (path_of d @ [x])"
  using makedirs_Inr [OF assms] by (simp add: grown_below)

lemma convert_success:
  assumes "convert_yolov8_to_onnx env m d st = (Inr p, st')"
  obtains F1 h op c k dk where
    "makedirs d (fs st) = Inr F1" "load env m F1 = Inr h"
    "export env h onnx_args F1 = Inr (op, c)" "resolve op = Some k"
    "F1 k \<noteq> Some Dir" "F1 (butlast k) = Some Dir"
    "fs st' = (F1(k := None))(dk \<mapsto> File c)"
    "if isdir (output_path_of d m) (fs st) then F1 dk = None \<and> dk \<noteq> k
     else dk = path_of d @ [model_name_of m @ ''.onnx'']"
proof -
  let ?out = "output_path_of d m"
  let ?ok = "path_of d @ [model_name_of m @ ''.onnx'']"
  from convert_stages [OF assms] obtain F1 h op F3 F5 where
    mk: "makedirs d (fs st) = Inr F1" and ld: "load env m F1 = Inr h"
    and ex: "run_export env h onnx_args F1 = Inr (op, F3)"
    and mv: "move op ?out F3 = Inr F5" and st': "fs st' = F5"
    by auto
  from run_export_Inr [OF ex] obtain c k where
    e: "export env h onnx_args F1 = Inr (op, c)" and k: "resolve op = Some k"
    and nd: "F1 k \<noteq> Some Dir" and pd: "F1 (butlast k) = Some Dir"
    and F3: "F3 = F1(k \<mapsto> File c)" by blast
  from move_Inr [OF mv] obtain s c' dk where
    s: "resolve op = Some s" "F3 s = Some (File c')"
    and F5: "F5 = (F3(s := None))(dk \<mapsto> File c')"
    and i: "if isdir ?out F3 then F3 dk = None else resolve ?out = Some dk" by blast
  from s k F3 have sk: "s = k" "c' = c" by auto
  with F5 F3 have F5': "F5 = (F1(k := None))(dk \<mapsto> File c)" by simp
  from nd F3 have "F3 ?ok = Some Dir \<longleftrightarrow> F1 ?ok = Some Dir" by auto
  with makedirs_output_path [OF mk] have
    d: "isdir ?out F3 \<longleftrightarrow> isdir ?out (fs st)" by (simp add: isdir_output_path)
  have "if isdir ?out (fs st) then F1 dk = None \<and> dk \<noteq> k else dk = ?ok"
  proof (cases "isdir ?out (fs st)")
    case True
    with d i have "F3 dk = None" by simp
    with F3 have "F1 dk = None \<and> dk \<noteq> k" by (auto split: if_splits)
    with True show ?thesis by simp
  next
    case False
    with d i have "resolve ?out = Some dk" by simp
    with False show ?thesis by (simp add: resolve_output_path)
  qed
  with that mk ld e k nd pd st' F5' show ?thesis by blast
qed

subsection \<open>The export configuration\<close>

lemma run_export_raises: "export env h a F = Inl e \<Longrightarrow> run_export env h a F = Inl e"
  unfolding run_export_def by simp

text \<open>
  C4. A call of \<open>convert_yolov8_to_onnx\<close> enters the exporter at most once, and always
  with the same arguments: format \<open>onnx\<close>, image size 640, dynamic batch size,
  simplification, opset 12. It enters it whenever the output directory could be made
  and the checkpoint loaded, and what the call does then is what the exporter does
  with these arguments: the error it raises with them is the error of the call, and
  the artifact it returns with them is what a successful call leaves at the output
  path (when that was not a directory). Nothing else of the exporter matters: two
  packages whose exporters agree on these arguments give the same run.
\<close>

theorem export_configuration_fixed:
  assumes "convert_yolov8_to_onnx env m d st = (r, st')"
  shows "(exports st' = exports st \<or>
          exports st' = exports st @
            [\<lparr>format = ''onnx'', imgsz = 640, dynamic = True, simplify = True, opset = 12\<rparr>])
       \<and> (\<forall>F1 h. makedirs d (fs st) = Inr F1 \<longrightarrow> load env m F1 = Inr h \<longrightarrow>
            exports st' = exports st @
              [\<lparr>format = ''onnx'', imgsz = 640, dynamic = True, simplify = True, opset = 12\<rparr>]
            \<and> (\<forall>e. export env h
                      \<lparr>format = ''onnx'', imgsz = 640, dynamic = True, simplify = True, opset = 12\<rparr>
                      F1 = Inl e \<longrightarrow> r = Inl e \<and> fs st' = F1)
            \<and> (\<forall>op c. export env h
                      \<lparr>format = ''onnx'', imgsz = 640, dynamic = True, simplify = True, opset = 12\<rparr>
                      F1 = Inr (op, c) \<longrightarrow>
                  \<not> isdir (output_path_of d m) (fs st) \<longrightarrow> (\<exists>p. r = Inr p) \<longrightarrow>
                  fs st' (path_of d @ [model_name_of m @ ''.onnx'']) = Some (File c)))
       \<and> (\<forall>env'. load env' = load env \<longrightarrow> dir_size env' = dir_size env \<longrightarrow>
            (\<forall>h F. export env' h
                      \<lparr>format = ''onnx'', imgsz = 640, dynamic = True, simplify = True, opset = 12\<rparr> F
                  = export env h
                      \<lparr>format = ''onnx'', imgsz = 640, dynamic = True, simplify = True, opset = 12\<rparr> F) \<longrightarrow>
            convert_yolov8_to_onnx env' m d st = (r, st'))"
proof -
  let ?args = "\<lparr>format = ''onnx'', imgsz = 640, dynamic = True, simplify = True, opset = 12\<rparr>"
  let ?ok = "path_of d @ [model_name_of m @ ''.onnx'']"
  have a: "onnx_args = ?args" by (simp add: onnx_args_def)
  from convert_stages [OF assms]
  have 1: "exports st' = exports st \<or> exports st' = exports st @ [?args]"
    by (auto simp: a)
  have 2: "exports st' = exports st @ [?args]
            \<and> (\<forall>e. export env h ?args F1 = Inl e \<longrightarrow> r = Inl e \<and> fs st' = F1)
            \<and> (\<forall>op c. export env h ?args F1 = Inr (op, c) \<longrightarrow>
                  \<not> isdir (output_path_of d m) (fs st) \<longrightarrow> (\<exists>p. r = Inr p) \<longrightarrow>
                  fs st' ?ok = Some (File c))"
    if mk: "makedirs d (fs st) = Inr F1" and ld: "load env m F1 = Inr h" for F1 h
  proof (intro conjI allI impI)
    from convert_stages [OF assms] mk ld
    show "exports st' = exports st @ [?args]" by (auto simp: a)
  next
    fix e assume "export env h ?args F1 = Inl e"
    then have "run_export env h onnx_args F1 = Inl e" unfolding a by (rule run_export_raises)
    with convert_stages [OF assms] mk ld show "r = Inl e" "fs st' = F1" by auto
  next
    fix op c
    assume ex: "export env h ?args F1 = Inr (op, c)"
      and nd: "\<not> isdir (output_path_of d m) (fs st)" and "\<exists>p. r = Inr p"
    then obtain p where c0: "convert_yolov8_to_onnx env m d st = (Inr p, st')"
      using assms by auto
    obtain F1' h' op' c' k dk where
      mk': "makedirs d (fs st) = Inr F1'" and ld': "load env m F1' = Inr h'"
      and ex': "export env h' onnx_args F1' = Inr (op', c')"
      and k: "resolve op' = Some k"
      and kd: "F1' k \<noteq> Some Dir" and pd: "F1' (butlast k) = Some Dir"
      and st': "fs st' = (F1'(k := None))(dk \<mapsto> File c')"
      and i: "if isdir (output_path_of d m) (fs st) then F1' dk = None \<and> dk \<noteq> k else dk = ?ok"
      by (rule convert_success [OF c0])
    from mk mk' have e1: "F1' = F1" by simp
    with ld ld' have e2: "h' = h" by simp
    from ex ex' e1 e2 have e3: "c' = c" by (simp add: a)
    from i nd have "dk = ?ok" by simp
    with st' e3 show "fs st' ?ok = Some (File c)" by simp
  qed
  have 3: "convert_yolov8_to_onnx env' m d st = (r, st')"
    if l: "load env' = load env" and s: "dir_size env' = dir_size env"
      and e: "\<forall>h F. export env' h ?args F = export env h ?args F" for env' :: "'a env"
  proof -
    from e have re: "\<And>h F. run_export env' h onnx_args F = run_export env h onnx_args F"
      by (simp add: run_export_def a)
    have "convert_yolov8_to_onnx env' m d st = convert_yolov8_to_onnx env m d st"
      unfolding convert_yolov8_to_onnx_def call_export_def l s re ..
    with assms show ?thesis by simp
  qed
  from 1 2 3 show ?thesis by (intro conjI allI impI) blast+
qed

theorem export_configuration_fixed_witness:
  "exports (snd (convert_yolov8_to_onnx strict_env ''api/yolov8n-pose.pt'' ''public/models''
                   sample_state))
     = [\<lparr>format = ''onnx'', imgsz = 640, dynamic = True, simplify = True, opset = 12\<rparr>]
   \<and> fs (snd (convert_yolov8_to_onnx strict_env ''api/yolov8n-pose.pt'' ''public/models''
                sample_state)) [''public'', ''models'', ''yolov8n-pose.onnx'']
     = Some (File ''onnx-12'')
   \<and> fst (convert_yolov8_to_onnx refusing_env ''api/yolov8n-pose.pt'' ''public/models''
            sample_state) = Inl (ExternalError ''unsupported layer'')
   \<and> convert_yolov8_to_onnx
        (strict_env\<lparr>export := \<lambda>model args F. Inr (fst (splitext model) @ ''.onnx'', ''onnx-12'')\<rparr>)
        ''api/yolov8n-pose.pt'' ''public/models'' sample_state
     = convert_yolov8_to_onnx strict_env ''api/yolov8n-pose.pt'' ''public/models'' sample_state"
proof -
  let ?m = "''api/yolov8n-pose.pt''"
  let ?d = "''public/models''"
  let ?args = "\<lparr>format = ''onnx'', imgsz = 640, dynamic = True, simplify = True, opset = 12\<rparr>"
  let ?c = "convert_yolov8_to_onnx strict_env ?m ?d sample_state"
  let ?r = "convert_yolov8_to_onnx refusing_env ?m ?d sample_state"
  let ?F1 = "projr (makedirs ?d (fs sample_state))"
  have c: "?c = (fst ?c, snd ?c)" by simp
  have r: "?r = (fst ?r, snd ?r)" by simp
  have "\<not> isl (makedirs ?d (fs sample_state))" by code_simp
  then have mk: "makedirs ?d (fs sample_state) = Inr ?F1" by (rule sum_Inr_projr)
  have ld: "load strict_env ?m ?F1 = Inr ?m" by (simp add: strict_env_def sample_env_def)
  have ld': "load refusing_env ?m ?F1 = Inr ?m" by (simp add: refusing_env_def sample_env_def)
  have e0: "exports sample_state = []" by (simp add: sample_state_def)
  note T = export_configuration_fixed [OF c, THEN conjunct2, THEN conjunct1, rule_format, OF mk ld]
  have 1: "exports (snd ?c) = [?args]"
    using T [THEN conjunct1] by (simp only: e0 append_Nil)
  have x: "export strict_env ?m ?args ?F1 = Inr (fst (splitext ?m) @ ''.onnx'', ''onnx-12'')"
    by (simp add: strict_env_def)
  have nd: "\<not> isdir (output_path_of ?d ?m) (fs sample_state)" by code_simp
  have "fst ?c = Inr ''public/models/yolov8n-pose.onnx''" by code_simp
  then have ok: "\<exists>p. fst ?c = Inr p" by blast
  have k: "path_of ?d @ [model_name_of ?m @ ''.onnx'']
             = [''public'', ''models'', ''yolov8n-pose.onnx'']" by code_simp
  have 2: "fs (snd ?c) [''public'', ''models'', ''yolov8n-pose.onnx''] = Some (File ''onnx-12'')"
    using T [THEN conjunct2, THEN conjunct2, rule_format, OF x nd ok] by (simp only: k)
  have x': "export refusing_env ?m ?args ?F1 = Inl (ExternalError ''unsupported layer'')"
    by (simp add: refusing_env_def)
  have 3: "fst ?r = Inl (ExternalError ''unsupported layer'')"
    using export_configuration_fixed [OF r, THEN conjunct2, THEN conjunct1, rule_format,
            OF mk ld', THEN conjunct2, THEN conjunct1, rule_format, OF x']
    by (rule conjunct1)
  let ?env' = "strict_env\<lparr>export := \<lambda>model args F. Inr (fst (splitext model) @ ''.onnx'', ''onnx-12'')\<rparr>"
  have l: "load ?env' = load strict_env" by simp
  have s: "dir_size ?env' = dir_size strict_env" by simp
  have e: "\<forall>h F. export ?env' h ?args F = export strict_env h ?args F"
    by (simp add: strict_env_def)
  have 4: "convert_yolov8_to_onnx ?env' ?m ?d sample_state = ?c"
    using export_configuration_fixed [OF c, THEN conjunct2, THEN conjunct2, rule_format,
            OF l s e [rule_format]]
    by (simp only: prod.collapse)
  from 1 2 3 4 show ?thesis by (intro conjI)
qed

subsection \<open>Who reports the size\<close>

text \<open>
  C6, as the specification states it, fails: the size is computed and printed by
  \<open>convert_yolov8_to_onnx\<close> itself (lines 56-57), before it returns; the caller prints
  nothing after a successful conversion. Here the function, called on its own, prints
  the size of a file of four bytes, and the body of the loop of \<open>main\<close> prints nothing
  more.
\<close>

theorem convert_logs_file_size_counterexample:
  "fst (convert_yolov8_to_onnx sample_env ''api/yolov8n-pose.pt'' ''public/models'' sample_state)
     = Inr ''public/models/yolov8n-pose.onnx''
   \<and> console (snd (convert_yolov8_to_onnx sample_env ''api/yolov8n-pose.pt'' ''public/models''
                     sample_state))
     = [Converting ''api/yolov8n-pose.pt'', Converted ''yolov8n-pose'',
        SavedTo ''public/models/yolov8n-pose.onnx'', Optimized, FileSizeMB (4 / (1024 * 1024))]
   \<and> console (snd (loop_body sample_env ''api/yolov8n-pose.pt'' [] sample_state))
     = console (snd (convert_yolov8_to_onnx sample_env ''api/yolov8n-pose.pt'' ''public/models''
                       sample_state))"
  by code_simp

text \<open>
  C6, amended. A successful call of \<open>convert_yolov8_to_onnx\<close> returns the output path
  \<open>output_dir/<model_name>.onnx\<close>, and the function itself has printed, last, the size
  of what is at that path, in bytes divided by \<open>1024 * 1024\<close>. When the output path was
  not a directory before the call, what is there is the artifact, and the size printed
  is the artifact's. The caller, the body of the loop of \<open>main\<close>, appends the path to
  the list of converted models and prints nothing.
\<close>

theorem convert_logs_file_size:
  assumes "convert_yolov8_to_onnx env m d st = (Inr p, st')"
  shows "p = join d (model_name_of m @ ''.onnx'')
       \<and> (\<exists>n. getsize (dir_size env) p (fs st') = Inr n
              \<and> console st' = console st @ [Converting m, Converted (model_name_of m), SavedTo p,
                                            Optimized, FileSizeMB (real n / (1024 * 1024))])
       \<and> (\<not> isdir p (fs st) \<longrightarrow>
            (\<exists>F1 h op c. makedirs d (fs st) = Inr F1 \<and> load env m F1 = Inr h
                \<and> export env h onnx_args F1 = Inr (op, c)
                \<and> (\<exists>k. resolve p = Some k \<and> fs st' k = Some (File c))
                \<and> console st' = console st @ [Converting m, Converted (model_name_of m),
                      SavedTo p, Optimized, FileSizeMB (real (length c) / (1024 * 1024))]))
       \<and> (d = default_output_dir \<longrightarrow> exists m (fs st) \<longrightarrow>
            loop_body env m acc st = (Inr (acc @ [p]), st'))"
proof -
  let ?ok = "path_of d @ [model_name_of m @ ''.onnx'']"
  from convert_Inr [OF assms] have p: "p = output_path_of d m" by (rule conjunct1)
  then have 1: "p = join d (model_name_of m @ ''.onnx'')" by (simp add: output_path_of_def)
  from p have rp: "resolve p = Some ?ok" by (simp add: resolve_output_path)
  from convert_Inr [OF assms]
  obtain n where g: "getsize (dir_size env) p (fs st') = Inr n"
    and cs: "console st' = console st @ [Converting m, Converted (model_name_of m), SavedTo p,
                                            Optimized, FileSizeMB (real n / (1024 * 1024))]"
    by blast
  then have 2: "\<exists>n. getsize (dir_size env) p (fs st') = Inr n
              \<and> console st' = console st @ [Converting m, Converted (model_name_of m), SavedTo p,
                                            Optimized, FileSizeMB (real n / (1024 * 1024))]"
    by blast
  have 3: "\<exists>F1 h op c. makedirs d (fs st) = Inr F1 \<and> load env m F1 = Inr h
                \<and> export env h onnx_args F1 = Inr (op, c)
                \<and> (\<exists>k. resolve p = Some k \<and> fs st' k = Some (File c))
                \<and> console st' = console st @ [Converting m, Converted (model_name_of m),
                      SavedTo p, Optimized, FileSizeMB (real (length c) / (1024 * 1024))]"
    if nd: "\<not> isdir p (fs st)"
  proof -
    obtain F1 h op c k dk where
      mk: "makedirs d (fs st) = Inr F1" and ld: "load env m F1 = Inr h"
      and ex: "export env h onnx_args F1 = Inr (op, c)"
      and k: "resolve op = Some k"
      and kd: "F1 k \<noteq> Some Dir" and pd: "F1 (butlast k) = Some Dir"
      and st': "fs st' = (F1(k := None))(dk \<mapsto> File c)"
      and i: "if isdir (output_path_of d m) (fs st) then F1 dk = None \<and> dk \<noteq> k else dk = ?ok"
      by (rule convert_success [OF assms])
    from i nd p have "dk = ?ok" by simp
    with st' have f: "fs st' ?ok = Some (File c)" by simp
    with rp have "getsize (dir_size env) p (fs st') = Inr (length c)"
      by (simp add: getsize_def)
    with g have "n = length c" by simp
    with cs have "console st' = console st @ [Converting m, Converted (model_name_of m),
                      SavedTo p, Optimized, FileSizeMB (real (length c) / (1024 * 1024))]"
      by simp
    with mk ld ex rp f show ?thesis by blast
  qed
  have 4: "loop_body env m acc st = (Inr (acc @ [p]), st')"
    if "d = default_output_dir" "exists m (fs st)"
    using that assms by (simp add: loop_body_def)
  from 1 2 3 4 show ?thesis by (intro conjI impI)
qed

theorem convert_logs_file_size_witness:
  "(\<exists>op. export sample_env ''api/yolov8s-pose.pt'' onnx_args
            (projr (makedirs ''public/models'' (fs sample_state))) = Inr (op, ''onnx''))
   \<and> console (snd (convert_yolov8_to_onnx sample_env ''api/yolov8s-pose.pt''
                      ''public/models'' sample_state))
     = [Converting ''api/yolov8s-pose.pt'', Converted ''yolov8s-pose'',
        SavedTo ''public/models/yolov8s-pose.onnx'', Optimized,
        FileSizeMB (real (length ''onnx'') / (1024 * 1024))]
   \<and> loop_body sample_env ''api/yolov8s-pose.pt'' [] sample_state
     = (Inr [''public/models/yolov8s-pose.onnx''],
        snd (convert_yolov8_to_onnx sample_env ''api/yolov8s-pose.pt'' ''public/models''
               sample_state))"
proof -
  let ?m = "''api/yolov8s-pose.pt''"
  let ?c = "convert_yolov8_to_onnx sample_env ?m ''public/models'' sample_state"
  let ?F1 = "projr (makedirs ''public/models'' (fs sample_state))"
  have "fst ?c = Inr ''public/models/yolov8s-pose.onnx''" by code_simp
  then have 1: "?c = (Inr ''public/models/yolov8s-pose.onnx'', snd ?c)"
    by (metis prod.collapse)
  have c: "console sample_state = []" by (simp add: sample_state_def)
  have m: "model_name_of ?m = ''yolov8s-pose''" by code_simp
  have d: "''public/models'' = default_output_dir" by (simp add: default_output_dir_def)
  have e: "exists ?m (fs sample_state)" by code_simp
  have nd: "\<not> isdir ''public/models/yolov8s-pose.onnx'' (fs sample_state)" by code_simp
  have x: "\<exists>op. export sample_env ?m onnx_args ?F1 = Inr (op, ''onnx'')"
    by (simp add: sample_env_def)
  note T = convert_logs_file_size [OF 1]
  from T [THEN conjunct2, THEN conjunct2, THEN conjunct1, THEN mp, OF nd]
  obtain F1 h op c' where mk: "makedirs ''public/models'' (fs sample_state) = Inr F1"
    and ld: "load sample_env ?m F1 = Inr h"
    and ex: "export sample_env h onnx_args F1 = Inr (op, c')"
    and cs: "console (snd ?c) = console sample_state @ [Converting ?m,
               Converted (model_name_of ?m), SavedTo ''public/models/yolov8s-pose.onnx'',
               Optimized, FileSizeMB (real (length c') / (1024 * 1024))]"
    by blast
  from ex have "c' = ''onnx''" by (simp add: sample_env_def)
  with cs have b: "console (snd ?c)
     = [Converting ?m, Converted ''yolov8s-pose'',
        SavedTo ''public/models/yolov8s-pose.onnx'', Optimized,
        FileSizeMB (real (length ''onnx'') / (1024 * 1024))]"
    by (simp only: c m append_Nil)
  from T [of "[]", THEN conjunct2, THEN conjunct2, THEN conjunct2, THEN mp, THEN mp, OF d e]
  have f: "loop_body sample_env ?m [] sample_state
     = (Inr [''public/models/yolov8s-pose.onnx''], snd ?c)"
    by (simp only: append_Nil)
  from x b f show ?thesis by (intro conjI)
qed

subsection \<open>Where the artifact ends up\<close>

text \<open>
  C3. The specification has every successful call relocate the artifact to
  \<open>output_dir/<model_name>.onnx\<close> and return that path. The code does not when that path
  is already a directory: \<open>shutil.move\<close> (line 49) then moves the artifact inside the
  directory, under the base name of the path the exporter returned. Called on
  \<open>api/yolov8n-pose.pt\<close> where \<open>public/models/yolov8n-pose.onnx\<close> is a directory, the
  function succeeds and returns \<open>public/models/yolov8n-pose.onnx\<close>, which is still the
  directory; the artifact is one level below it; and the function has printed that it
  saved the model to the path it returns, with the size of the directory (64 bytes here)
  as the file size, not the four bytes of the artifact.
\<close>

theorem convert_moves_into_directory:
  "fst (convert_yolov8_to_onnx sample_env ''api/yolov8n-pose.pt'' ''public/models'' occupied_state)
     = Inr ''public/models/yolov8n-pose.onnx''
   \<and> fs (snd (convert_yolov8_to_onnx sample_env ''api/yolov8n-pose.pt'' ''public/models''
                occupied_state)) [''public'', ''models'', ''yolov8n-pose.onnx''] = Some Dir
   \<and> fs (snd (convert_yolov8_to_onnx sample_env ''api/yolov8n-pose.pt'' ''public/models''
                occupied_state))
        [''public'', ''models'', ''yolov8n-pose.onnx'', ''yolov8n-pose.onnx'']
     = Some (File ''onnx'')
   \<and> console (snd (convert_yolov8_to_onnx sample_env ''api/yolov8n-pose.pt'' ''public/models''
                     occupied_state))
     = [Converting ''api/yolov8n-pose.pt'', Converted ''yolov8n-pose'',
        SavedTo ''public/models/yolov8n-pose.onnx'', Optimized, FileSizeMB (64 / (1024 * 1024))]"
  by code_simp





subsection \<open>The output directory\<close>

lemma wf_fs_above:
  assumes "wf_fs F" and "F p = Some Dir"
  shows "F (take n p) = Some Dir"
proof (cases "n < length p")
  case True
  with wf_fs_ancestors [OF assms(1), of p n] assms(2) show ?thesis by simp
next
  case False
  with assms(2) show ?thesis by simp
qed

text \<open>
  Whatever its outcome, a call that got past \<open>os.makedirs\<close> keeps the directories as
  \<open>os.makedirs\<close> left them, and a well-formed filesystem well-formed.
\<close>

lemma convert_after_makedirs:
  assumes c: "convert_yolov8_to_onnx env m d st = (r, st')"
    and mk: "makedirs d (fs st) = Inr F1"
  shows "(fs st' q = Some Dir \<longleftrightarrow> F1 q = Some Dir) \<and> (wf_fs F1 \<longrightarrow> wf_fs (fs st'))"
proof -
  from convert_stages [OF c] mk consider
    (same) "fs st' = F1"
    | (exported) h op F3 where "run_export env h onnx_args F1 = Inr (op, F3)" "fs st' = F3"
    | (moved) h op F3 where "run_export env h onnx_args F1 = Inr (op, F3)"
        "move op (output_path_of d m) F3 = Inr (fs st')"
    by auto
  then show ?thesis
  proof cases
    case same
    then show ?thesis by simp
  next
    case exported
    with run_export_dirs [OF exported(1), of q] run_export_wf [OF exported(1)]
    show ?thesis by simp
  next
    case moved
    with run_export_dirs [OF moved(1), of q] run_export_wf [OF moved(1)]
      move_dirs [OF moved(2), of q] move_wf [OF moved(2)]
    show ?thesis by simp
  qed
qed

lemma convert_makedirs_failed:
  assumes "makedirs d (fs st) = Inl e"
  shows "convert_yolov8_to_onnx env m d st = (Inl e, st\<lparr>console := console st @ [Converting m]\<rparr>)"
  using assms unfolding convert_yolov8_to_onnx_def print_def by simp

text \<open>
  With the output directory in place and the output path not a directory, a call
  whose load and export succeed succeeds, and leaves the artifact at the output path.
\<close>

lemma convert_succeeds:
  assumes w: "wf_fs (fs st)" and dd: "isdir d (fs st)"
    and nd: "\<not> isdir (output_path_of d m) (fs st)"
    and ld: "load env m (fs st) = Inr h"
    and ex: "run_export env h onnx_args (fs st) = Inr (op, F3)"
  shows "\<exists>st' c k. convert_yolov8_to_onnx env m d st = (Inr (output_path_of d m), st')
           \<and> export env h onnx_args (fs st) = Inr (op, c) \<and> resolve op = Some k
           \<and> fs st' = ((fs st)(k := None))(path_of d @ [model_name_of m @ ''.onnx''] \<mapsto> File c)"
proof -
  let ?F = "fs st"
  let ?out = "output_path_of d m"
  let ?ok = "path_of d @ [model_name_of m @ ''.onnx'']"
  from w dd have mk: "makedirs d ?F = Inr ?F" by (rule makedirs_existing)
  from makedirs_Inr [OF mk] have pd: "?F (path_of d) = Some Dir" by simp
  from run_export_Inr [OF ex] obtain c k where
    e: "export env h onnx_args ?F = Inr (op, c)" and k: "resolve op = Some k"
    and kd: "?F k \<noteq> Some Dir" and F3: "F3 = ?F(k \<mapsto> File c)" by blast
  from nd have od: "?F ?ok \<noteq> Some Dir" by (simp add: isdir_output_path)
  with F3 have od3: "F3 ?ok \<noteq> Some Dir" by simp
  then have nd3: "\<not> isdir ?out F3" by (simp add: isdir_output_path)
  from pd kd have "path_of d \<noteq> k" by auto
  with pd F3 have pd3: "F3 (butlast ?ok) = Some Dir" by simp
  from F3 have s3: "F3 k = Some (File c)" by simp
  from rename_file [OF k resolve_output_path s3 od3 pd3]
  have "rename op ?out F3 = Inr ((F3(k := None))(?ok \<mapsto> File c))" .
  with nd3 have mv: "move op ?out F3 = Inr ((F3(k := None))(?ok \<mapsto> File c))"
    by (simp add: move_not_dir)
  have F5: "(F3(k := None))(?ok \<mapsto> File c) = (?F(k := None))(?ok \<mapsto> File c)"
    unfolding F3 by simp
  have gs: "getsize (dir_size env) ?out ((F3(k := None))(?ok \<mapsto> File c)) = Inr (length c)"
    by (simp add: getsize_def resolve_output_path)
  have "fst (convert_yolov8_to_onnx env m d st) = Inr ?out
        \<and> fs (snd (convert_yolov8_to_onnx env m d st)) = (F3(k := None))(?ok \<mapsto> File c)"
    unfolding convert_yolov8_to_onnx_def call_export_def Let_def print_def
    by (simp add: mk ld ex mv gs output_path_of_def [symmetric])
  with F5 have "convert_yolov8_to_onnx env m d st
                  = (Inr ?out, snd (convert_yolov8_to_onnx env m d st))
        \<and> fs (snd (convert_yolov8_to_onnx env m d st)) = (?F(k := None))(?ok \<mapsto> File c)"
    by (metis prod.collapse)
  with e k show ?thesis by blast
qed

lemma wf_fs_sample: "wf_fs sample_fs"
  unfolding wf_fs_def sample_fs_def by (auto split: if_splits)

lemma wf_fs_second_run: "wf_fs (fs second_run_state)"
  unfolding wf_fs_def second_run_state_def sample_fs_def by (auto split: if_splits)


text \<open>
  C7. Making the output directory is idempotent: on a well-formed filesystem where the
  directory exists, \<open>os.makedirs\<close> succeeds and changes nothing. It comes first: when
  it fails the call ends there, with nothing exported or moved. Whenever the exporter
  has been invoked, and so before any move, the directory exists, and on a well-formed
  filesystem so does everything above it. And with the directory in place the call
  does not fail: if the output path is not a directory and the load and the export
  succeed, the call returns the output path.
\<close>

theorem output_directory_created_first:
  "(wf_fs (fs st) \<longrightarrow> isdir d (fs st) \<longrightarrow> makedirs d (fs st) = Inr (fs st))
   \<and> (\<forall>e. makedirs d (fs st) = Inl e \<longrightarrow>
          convert_yolov8_to_onnx env m d st
            = (Inl e, st\<lparr>console := console st @ [Converting m]\<rparr>))
   \<and> (\<forall>r st'. convert_yolov8_to_onnx env m d st = (r, st') \<longrightarrow> exports st' \<noteq> exports st \<longrightarrow>
          isdir d (fs st')
          \<and> (wf_fs (fs st) \<longrightarrow> (\<forall>n. fs st' (take n (path_of d)) = Some Dir)))
   \<and> (\<forall>h op F3. wf_fs (fs st) \<longrightarrow> isdir d (fs st) \<longrightarrow> \<not> isdir (output_path_of d m) (fs st) \<longrightarrow>
          load env m (fs st) = Inr h \<longrightarrow> run_export env h onnx_args (fs st) = Inr (op, F3) \<longrightarrow>
          fst (convert_yolov8_to_onnx env m d st) = Inr (output_path_of d m))"
proof (intro conjI allI impI)
  assume "wf_fs (fs st)" "isdir d (fs st)"
  then show "makedirs d (fs st) = Inr (fs st)" by (rule makedirs_existing)
next
  fix e assume "makedirs d (fs st) = Inl e"
  then show "convert_yolov8_to_onnx env m d st
            = (Inl e, st\<lparr>console := console st @ [Converting m]\<rparr>)"
    by (rule convert_makedirs_failed)
next
  fix r st'
  assume c: "convert_yolov8_to_onnx env m d st = (r, st')" and x: "exports st' \<noteq> exports st"
  from convert_stages [OF c] x obtain F1 where mk: "makedirs d (fs st) = Inr F1" by auto
  from makedirs_Inr [OF mk] have r: "resolve d = Some (path_of d)"
    and pd: "F1 (path_of d) = Some Dir" by simp_all
  from convert_after_makedirs [OF c mk] pd have "fs st' (path_of d) = Some Dir" by simp
  with r show "isdir d (fs st')" by (simp add: isdir_def)
  show "fs st' (take n (path_of d)) = Some Dir" if "wf_fs (fs st)" for n
  proof -
    from mk that have w1: "wf_fs F1" by (rule makedirs_wf)
    from wf_fs_above [OF w1 pd] have "F1 (take n (path_of d)) = Some Dir" .
    with convert_after_makedirs [OF c mk] show ?thesis by simp
  qed
next
  fix h op F3
  assume "wf_fs (fs st)" "isdir d (fs st)" "\<not> isdir (output_path_of d m) (fs st)"
    "load env m (fs st) = Inr h" "run_export env h onnx_args (fs st) = Inr (op, F3)"
  from convert_succeeds [OF this]
  show "fst (convert_yolov8_to_onnx env m d st) = Inr (output_path_of d m)" by auto
qed

theorem output_directory_created_first_witness:
  "makedirs ''public/models'' (fs second_run_state) = Inr (fs second_run_state)
   \<and> convert_yolov8_to_onnx sample_env ''api/yolov8n-pose.pt'' default_output_dir blocked_state
     = (Inl NotADirectoryError, blocked_state\<lparr>console := [Converting ''api/yolov8n-pose.pt'']\<rparr>)
   \<and> \<not> exists ''public'' (fs sample_state)
   \<and> isdir ''public/models''
        (fs (snd (convert_yolov8_to_onnx sample_env ''api/yolov8n-pose.pt'' ''public/models''
                    sample_state)))
   \<and> fs (snd (convert_yolov8_to_onnx sample_env ''api/yolov8n-pose.pt'' ''public/models''
                sample_state)) [''public''] = Some Dir
   \<and> fst (convert_yolov8_to_onnx sample_env ''api/yolov8n-pose.pt'' ''public/models''
            second_run_state) = Inr ''public/models/yolov8n-pose.onnx''"
proof -
  let ?m = "''api/yolov8n-pose.pt''"
  let ?d = "''public/models''"
  have i2: "isdir ?d (fs second_run_state)" by code_simp
  from output_directory_created_first [of second_run_state ?d, THEN conjunct1, THEN mp, THEN mp,
        OF wf_fs_second_run i2]
  have a: "makedirs ?d (fs second_run_state) = Inr (fs second_run_state)" .
  have cb: "console blocked_state = []" by (simp add: blocked_state_def)
  from output_directory_created_first [of blocked_state default_output_dir sample_env ?m,
        THEN conjunct2, THEN conjunct1, THEN spec, THEN mp, OF makedirs_blocked]
  have b: "convert_yolov8_to_onnx sample_env ?m default_output_dir blocked_state
     = (Inl NotADirectoryError, blocked_state\<lparr>console := [Converting ?m]\<rparr>)"
    by (simp only: cb append_Nil)
  let ?c = "convert_yolov8_to_onnx sample_env ?m ?d sample_state"
  have c0: "?c = (fst ?c, snd ?c)" by simp
  have x: "exports (snd ?c) \<noteq> exports sample_state" by code_simp
  have ws: "wf_fs (fs sample_state)" by (simp add: sample_state_def wf_fs_sample)
  note T = output_directory_created_first [of sample_state ?d sample_env ?m,
        THEN conjunct2, THEN conjunct2, THEN conjunct1, THEN spec, THEN spec, THEN mp, THEN mp,
        OF c0 x]
  from T have c: "isdir ?d (fs (snd ?c))" by (rule conjunct1)
  have p1: "take 1 (path_of ?d) = [''public'']" by code_simp
  from T [THEN conjunct2, THEN mp, OF ws, THEN spec, of 1]
  have d: "fs (snd ?c) [''public''] = Some Dir" by (simp only: p1)
  have n: "\<not> exists ''public'' (fs sample_state)" by code_simp
  let ?x = "run_export sample_env ?m onnx_args (fs second_run_state)"
  have "\<not> isl ?x" by code_simp
  then have "?x = Inr (projr ?x)" by (rule sum_Inr_projr)
  then have rx: "?x = Inr (fst (projr ?x), snd (projr ?x))" by simp
  have nd: "\<not> isdir (output_path_of ?d ?m) (fs second_run_state)" by code_simp
  have ld: "load sample_env ?m (fs second_run_state) = Inr ?m" by (simp add: sample_env_def)
  have o: "output_path_of ?d ?m = ''public/models/yolov8n-pose.onnx''" by code_simp
  from output_directory_created_first [of second_run_state ?d sample_env ?m,
        THEN conjunct2, THEN conjunct2, THEN conjunct2, THEN spec, THEN spec, THEN spec,
        THEN mp, THEN mp, THEN mp, THEN mp, THEN mp, OF wf_fs_second_run i2 nd ld rx]
  have e: "fst (convert_yolov8_to_onnx sample_env ?m ?d second_run_state)
             = Inr ''public/models/yolov8n-pose.onnx''"
    by (simp only: o)
  from a b n c d e show ?thesis by (intro conjI)
qed

subsection \<open>A second run\<close>

text \<open>
  C8. The specification has a second run overwrite the output file of each model. The
  code does not when the output path of a model is a directory, for the reason given
  under C3. With \<open>public/models/yolov8n-pose.onnx\<close> a directory, the first run of \<open>main\<close>
  reports both models converted and leaves the first artifact inside that directory.
  The second run, with the same package and on the filesystem the first has left (its
  console is empty again), does not replace it: \<open>shutil.move\<close> raises because the
  destination exists, the conversion of the first model is reported as failed, the
  summary counts one converted model, and the file the exporter wrote for the first
  model stays behind at \<open>api/yolov8n-pose.onnx\<close>, where the first run had left nothing.
\<close>

theorem second_run_fails_on_directory:
  "fst (main sample_env occupied_state) = Inr ()
   \<and> console (snd (main sample_env occupied_state))
     = [Header,
        Converting ''api/yolov8n-pose.pt'', Converted ''yolov8n-pose'',
        SavedTo ''public/models/yolov8n-pose.onnx'', Optimized, FileSizeMB (64 / (1024 * 1024)),
        Converting ''api/yolov8s-pose.pt'', Converted ''yolov8s-pose'',
        SavedTo ''public/models/yolov8s-pose.onnx'', Optimized, FileSizeMB (4 / (1024 * 1024)),
        Complete, ConvertedCount 2, ConvertedPath ''public/models/yolov8n-pose.onnx'',
        ConvertedPath ''public/models/yolov8s-pose.onnx'', NextSteps, Recommended]
   \<and> fs (snd (main sample_env occupied_state))
        [''public'', ''models'', ''yolov8n-pose.onnx'', ''yolov8n-pose.onnx'']
     = Some (File ''onnx'')
   \<and> fs (snd (main sample_env occupied_state)) [''api'', ''yolov8n-pose.onnx''] = None
   \<and> fst (main sample_env ((snd (main sample_env occupied_state))\<lparr>console := []\<rparr>)) = Inr ()
   \<and> console (snd (main sample_env ((snd (main sample_env occupied_state))\<lparr>console := []\<rparr>)))
     = [Header,
        Converting ''api/yolov8n-pose.pt'',
        ErrorConverting ''api/yolov8n-pose.pt''
          (DestinationExists ''public/models/yolov8n-pose.onnx/yolov8n-pose.onnx''),
        Converting ''api/yolov8s-pose.pt'', Converted ''yolov8s-pose'',
        SavedTo ''public/models/yolov8s-pose.onnx'', Optimized, FileSizeMB (4 / (1024 * 1024)),
        Complete, ConvertedCount 1, ConvertedPath ''public/models/yolov8s-pose.onnx'',
        NextSteps, Recommended]
   \<and> fs (snd (main sample_env ((snd (main sample_env occupied_state))\<lparr>console := []\<rparr>)))
        [''api'', ''yolov8n-pose.onnx''] = Some (File ''onnx'')"
  by code_simp

subsection \<open>A failed conversion\<close>

text \<open>
  C10. A call of \<open>convert_yolov8_to_onnx\<close> that fails after \<open>os.makedirs\<close> has succeeded
  (in the load, the export or the move) leaves the output directory in place, with
  every directory \<open>os.makedirs\<close> has made and, on a well-formed filesystem, everything
  above the output directory; what is at the output path is what was there before the
  call; and the caller sees the failure: the body of the loop of \<open>main\<close> prints the
  error.
\<close>

theorem failed_conversion_leaves_directory:
  assumes "convert_yolov8_to_onnx env m d st = (Inl e, st')"
    and "makedirs d (fs st) = Inr F1"
  shows "isdir d (fs st')
       \<and> (\<forall>q. F1 q = Some Dir \<longrightarrow> fs st' q = Some Dir)
       \<and> (wf_fs (fs st) \<longrightarrow> (\<forall>n. fs st' (take n (path_of d)) = Some Dir))
       \<and> fs st' (path_of d @ [model_name_of m @ ''.onnx''])
           = fs st (path_of d @ [model_name_of m @ ''.onnx''])
       \<and> (d = default_output_dir \<longrightarrow> exists m (fs st) \<longrightarrow> is_Exception e \<longrightarrow>
            loop_body env m acc st = (Inr acc, print (ErrorConverting m e) st'))"
proof (intro conjI allI impI)
  let ?ok = "path_of d @ [model_name_of m @ ''.onnx'']"
  let ?out = "output_path_of d m"
  note c = assms(1) and mk = assms(2)
  from makedirs_Inr [OF mk] have r: "resolve d = Some (path_of d)"
    and pd: "F1 (path_of d) = Some Dir" by simp_all
  from convert_after_makedirs [OF c mk] pd have "fs st' (path_of d) = Some Dir" by simp
  with r show "isdir d (fs st')" by (simp add: isdir_def)
  show "fs st' q = Some Dir" if "F1 q = Some Dir" for q
    using convert_after_makedirs [OF c mk, of q] that by simp
  show "fs st' (take n (path_of d)) = Some Dir" if "wf_fs (fs st)" for n
  proof -
    from mk that have w1: "wf_fs F1" by (rule makedirs_wf)
    from wf_fs_above [OF w1 pd] have "F1 (take n (path_of d)) = Some Dir" .
    with convert_after_makedirs [OF c mk] show ?thesis by simp
  qed
  show "loop_body env m acc st = (Inr acc, print (ErrorConverting m e) st')"
    if "d = default_output_dir" "exists m (fs st)" "is_Exception e"
    using that c by (simp add: loop_body_def)
  from convert_stages [OF c] mk consider
    (same) "fs st' = F1"
    | (exported) h op F3 e' where "run_export env h onnx_args F1 = Inr (op, F3)"
        "move op ?out F3 = Inl e'" "fs st' = F3"
    | (moved) op F3 F5 e' where "move op ?out F3 = Inr F5"
        "getsize (dir_size env) ?out F5 = Inl e'"
    by auto
  then show "fs st' ?ok = fs st ?ok"
  proof cases
    case same
    with makedirs_output_path [OF mk] show ?thesis by simp
  next
    case exported
    from run_export_Inr [OF exported(1)] obtain c' k where
      k: "resolve op = Some k" and kd: "F1 k \<noteq> Some Dir" and F3: "F3 = F1(k \<mapsto> File c')"
      by blast
    have "k \<noteq> ?ok"
    proof
      assume eq: "k = ?ok"
      from pd kd have "path_of d \<noteq> k" by auto
      with pd F3 have p3: "F3 (butlast ?ok) = Some Dir" by simp
      from F3 eq have s3: "F3 ?ok = Some (File c')" by simp
      then have n3: "F3 ?ok \<noteq> Some Dir" by simp
      then have "\<not> isdir ?out F3" by (simp add: isdir_output_path)
      then have "move op ?out F3 = rename op ?out F3" by (rule move_not_dir)
      also from k eq have "resolve op = Some ?ok" by simp
      from rename_file [OF this resolve_output_path s3 n3 p3]
      have "rename op ?out F3 = Inr ((F3(?ok := None))(?ok \<mapsto> File c'))" .
      finally show False using exported(2) by simp
    qed
    with F3 exported(3) makedirs_output_path [OF mk] show ?thesis by simp
  next
    case moved
    from move_getsize [OF moved(1), of "dir_size env"] moved(2) show ?thesis by simp
  qed
qed

theorem failed_conversion_leaves_directory_witness:
  "\<not> exists ''public'' (fs sample_state)
   \<and> fst (convert_yolov8_to_onnx failing_first_env ''api/yolov8n-pose.pt'' default_output_dir
            sample_state) = Inl (ExternalError ''corrupt checkpoint'')
   \<and> isdir default_output_dir
        (fs (snd (convert_yolov8_to_onnx failing_first_env ''api/yolov8n-pose.pt''
                    default_output_dir sample_state)))
   \<and> fs (snd (convert_yolov8_to_onnx failing_first_env ''api/yolov8n-pose.pt''
                default_output_dir sample_state)) [''public''] = Some Dir
   \<and> fs (snd (convert_yolov8_to_onnx failing_first_env ''api/yolov8n-pose.pt''
                default_output_dir sample_state)) [''public'', ''models'', ''yolov8n-pose.onnx'']
     = None
   \<and> loop_body failing_first_env ''api/yolov8n-pose.pt'' [] sample_state
     = (Inr [], print (ErrorConverting ''api/yolov8n-pose.pt''
                         (ExternalError ''corrupt checkpoint''))
                  (snd (convert_yolov8_to_onnx failing_first_env ''api/yolov8n-pose.pt''
                          default_output_dir sample_state)))"
proof -
  let ?m = "''api/yolov8n-pose.pt''"
  let ?e = "ExternalError ''corrupt checkpoint''"
  let ?c = "convert_yolov8_to_onnx failing_first_env ?m default_output_dir sample_state"
  let ?F1 = "projr (makedirs default_output_dir (fs sample_state))"
  have n: "\<not> exists ''public'' (fs sample_state)" by code_simp
  have f: "fst ?c = Inl ?e" by code_simp
  then have 1: "?c = (Inl ?e, snd ?c)" by (metis prod.collapse)
  have "\<not> isl (makedirs default_output_dir (fs sample_state))" by code_simp
  then have 2: "makedirs default_output_dir (fs sample_state) = Inr ?F1" by (rule sum_Inr_projr)
  note T = failed_conversion_leaves_directory [OF 1 2, of "[]"]
  from T have a: "isdir default_output_dir (fs (snd ?c))" by (rule conjunct1)
  have ws: "wf_fs (fs sample_state)" by (simp add: sample_state_def wf_fs_sample)
  have p1: "take 1 (path_of default_output_dir) = [''public'']" by code_simp
  from T [THEN conjunct2, THEN conjunct2, THEN conjunct1, THEN mp, OF ws, THEN spec, of 1]
  have b: "fs (snd ?c) [''public''] = Some Dir" by (simp only: p1)
  have k: "path_of default_output_dir @ [model_name_of ?m @ ''.onnx'']
             = [''public'', ''models'', ''yolov8n-pose.onnx'']" by code_simp
  have o: "fs sample_state [''public'', ''models'', ''yolov8n-pose.onnx''] = None" by code_simp
  from T [THEN conjunct2, THEN conjunct2, THEN conjunct2, THEN conjunct1]
  have c: "fs (snd ?c) [''public'', ''models'', ''yolov8n-pose.onnx''] = None"
    by (simp only: k o)
  have x: "exists ?m (fs sample_state)" by code_simp
  have i: "is_Exception ?e" by (simp add: is_Exception_def)
  from T [THEN conjunct2, THEN conjunct2, THEN conjunct2, THEN conjunct2, THEN mp, THEN mp,
          THEN mp, OF refl x i]
  have d: "loop_body failing_first_env ?m [] sample_state
             = (Inr [], print (ErrorConverting ?m ?e) (snd ?c))" .
  from n f a b c d show ?thesis by (intro conjI)
qed

end
